theory Spec2Isabelle
  imports Main
begin

chapter \<open>The model\<close>

section \<open>JavaScript values, errors and string helpers\<close>

text \<open>
  The values that travel through request bodies, query strings and SQL parameter arrays.
  \<open>Num n\<close> stands for an integer-valued JavaScript number printed in plain decimal.
\<close>

datatype jsval = Undefined | Null | Str string | Num int | Bool bool

text \<open>
  \<open>class AppError extends Error\<close> of errorMiddleware: message, statusCode, code.
  A thrown \<open>AppError\<close> is the \<open>Inl\<close> branch of a result.
\<close>

datatype app_error = AppError (message: string) (statusCode: nat) (errCode: string)

text \<open>\<open>Array.prototype.join\<close> on an array of strings.\<close>

fun join :: "string \<Rightarrow> string list \<Rightarrow> string" where
  "join sep [] = []"
| "join sep [x] = x"
| "join sep (x # y # ys) = x @ sep @ join sep (y # ys)"

text \<open>
  Decimal digits. \<open>Number.prototype.toString\<close> of a non-negative integer is
  \<open>show_nat\<close>; \<open>dec_val\<close> reads a string of digits back.
\<close>

definition is_digit :: "char \<Rightarrow> bool" where
  "is_digit c = (c \<in> set ''0123456789'')"

definition digit_val :: "char \<Rightarrow> nat" where
  "digit_val c = of_char c - 48"

definition digit_char :: "nat \<Rightarrow> char" where
  "digit_char d = ''0123456789'' ! d"

definition dec_val :: "string \<Rightarrow> nat" where
  "dec_val ds = foldl (\<lambda>a c. 10 * a + digit_val c) 0 ds"

function show_nat :: "nat \<Rightarrow> string" where
  "show_nat n = (if n < 10 then [digit_char n] else show_nat (n div 10) @ [digit_char (n mod 10)])"
  by pat_completeness auto
termination
  by (relation "measure (\<lambda>n. n)") auto

declare show_nat.simps [simp del]

definition show_int :: "int \<Rightarrow> string" where
  "show_int i = (if i < 0 then CHR ''-'' # show_nat (nat (- i)) else show_nat (nat i))"

text \<open>String conversion of a value inside a template literal.\<close>

fun toStr :: "jsval \<Rightarrow> string" where
  "toStr Undefined = ''undefined''"
| "toStr Null = ''null''"
| "toStr (Str s) = s"
| "toStr (Num n) = show_int n"
| "toStr (Bool b) = (if b then ''true'' else ''false'')"

text \<open>
  \<open>String.prototype.startsWith\<close>, \<open>includes\<close> (here \<open>includes_js\<close>) and \<open>endsWith\<close>, and
  \<open>s.replace(p, '')\<close> with a string pattern, which removes the first occurrence of
  \<open>p\<close> only.
\<close>

definition startsWith :: "string \<Rightarrow> string \<Rightarrow> bool" where
  "startsWith s p = (take (length p) s = p)"

fun includes_js :: "string \<Rightarrow> string \<Rightarrow> bool" where
  "includes_js [] p = (p = [])"
| "includes_js (c # cs) p = (startsWith (c # cs) p \<or> includes_js cs p)"

definition endsWith :: "string \<Rightarrow> string \<Rightarrow> bool" where
  "endsWith s p = (length p \<le> length s \<and> drop (length s - length p) s = p)"

fun removeFirst :: "string \<Rightarrow> string \<Rightarrow> string" where
  "removeFirst [] p = []"
| "removeFirst (c # cs) p =
     (if startsWith (c # cs) p then drop (length p) (c # cs) else c # removeFirst cs p)"

section \<open>queryUtils: buildUpdateQuery\<close>

text \<open>
  The \<open>updates\<close> object is given as the list \<open>Object.entries(updates)\<close>. The
  \<open>forEach\<close> loop pushes onto the two arrays \<open>updateFields\<close> and \<open>updateValues\<close>.
\<close>

definition pushUpdate :: "string \<times> jsval \<Rightarrow> string list \<times> jsval list \<Rightarrow> string list \<times> jsval list" where
  "pushUpdate kv acc =
     (case kv of (key, value) \<Rightarrow>
        (case acc of (updateFields, updateValues) \<Rightarrow>
           if value \<noteq> Undefined
           then (updateFields @ [key @ '' = ?''], updateValues @ [value])
           else (updateFields, updateValues)))"

definition buildUpdateQuery ::
  "string \<Rightarrow> (string \<times> jsval) list \<Rightarrow> string \<Rightarrow> jsval list \<Rightarrow> app_error + (string \<times> jsval list)" where
  "buildUpdateQuery table updates whereClause whereParams =
     (case fold pushUpdate updates ([], []) of (updateFields, updateValues) \<Rightarrow>
        if length updateFields = 0
        then Inl (AppError ''No fields to update'' 400 ''NO_UPDATE_FIELDS'')
        else Inr (''UPDATE '' @ table @ '' SET '' @ join '', '' updateFields
                    @ '', updated_at = NOW() WHERE '' @ whereClause,
                  updateValues @ whereParams))"

text \<open>The entries of an object whose value is not \<open>undefined\<close>.\<close>

definition definedEntries :: "(string \<times> jsval) list \<Rightarrow> (string \<times> jsval) list" where
  "definedEntries updates = filter (\<lambda>kv. snd kv \<noteq> Undefined) updates"

section \<open>queryUtils: buildSearchQuery\<close>

text \<open>
  The \<open>filters\<close> object is given as the list \<open>Object.entries(filters)\<close>. The loop
  tests \<open>key.includes(marker)\<close> and derives the column with \<open>key.replace(marker, '')\<close>.
\<close>

definition pushFilter :: "string \<times> jsval \<Rightarrow> string list \<times> jsval list \<Rightarrow> string list \<times> jsval list" where
  "pushFilter kv acc =
     (case kv of (key, value) \<Rightarrow>
        (case acc of (whereClauses, queryParams) \<Rightarrow>
           if value \<noteq> Undefined \<and> value \<noteq> Null \<and> value \<noteq> Str ''''
           then
             if includes_js key ''_like''
             then (whereClauses @ [removeFirst key ''_like'' @ '' LIKE ?''],
                   queryParams @ [Str (''%'' @ toStr value @ ''%'')])
             else if includes_js key ''_date_from''
             then (whereClauses @ [removeFirst key ''_date_from'' @ '' >= ?''],
                   queryParams @ [value])
             else if includes_js key ''_date_to''
             then (whereClauses @ [removeFirst key ''_date_to'' @ '' <= ?''],
                   queryParams @ [value])
             else (whereClauses @ [key @ '' = ?''], queryParams @ [value])
           else (whereClauses, queryParams)))"

definition buildSearchQuery ::
  "string \<Rightarrow> (string \<times> jsval) list \<Rightarrow> jsval list \<Rightarrow> string \<times> jsval list" where
  "buildSearchQuery baseQuery filters baseParams =
     (case fold pushFilter filters ([], baseParams) of (whereClauses, queryParams) \<Rightarrow>
        (if length whereClauses > 0
         then baseQuery @ (if includes_js baseQuery ''WHERE''
                           then '' AND '' @ join '' AND '' whereClauses
                           else '' WHERE '' @ join '' AND '' whereClauses)
         else baseQuery,
         queryParams))"

text \<open>The filter entries that are not skipped.\<close>

definition liveFilter :: "string \<times> jsval \<Rightarrow> bool" where
  "liveFilter kv = (snd kv \<noteq> Undefined \<and> snd kv \<noteq> Null \<and> snd kv \<noteq> Str '''')"

text \<open>
  The predicate and the parameter of one filter entry, by the marker its key contains:
  the first marker found, in the order \<open>_like\<close>, \<open>_date_from\<close>, \<open>_date_to\<close>, decides,
  and its first occurrence is cut out of the key.
\<close>

definition clauseOf :: "string \<Rightarrow> string" where
  "clauseOf key =
     (if includes_js key ''_like'' then removeFirst key ''_like'' @ '' LIKE ?''
      else if includes_js key ''_date_from'' then removeFirst key ''_date_from'' @ '' >= ?''
      else if includes_js key ''_date_to'' then removeFirst key ''_date_to'' @ '' <= ?''
      else key @ '' = ?'')"

definition paramOf :: "string \<times> jsval \<Rightarrow> jsval" where
  "paramOf kv =
     (if includes_js (fst kv) ''_like'' then Str (''%'' @ toStr (snd kv) @ ''%'') else snd kv)"

text \<open>
  The reading of the specification: the marker is a suffix of the key (\<open>endsWith\<close>), the
  column is the key without that suffix, and every other key is an equality.
\<close>

definition clauseOf_spec :: "string \<Rightarrow> string" where
  "clauseOf_spec key =
     (if endsWith key ''_like'' then take (length key - 5) key @ '' LIKE ?''
      else if endsWith key ''_date_from'' then take (length key - 10) key @ '' >= ?''
      else if endsWith key ''_date_to'' then take (length key - 8) key @ '' <= ?''
      else key @ '' = ?'')"

definition paramOf_spec :: "string \<times> jsval \<Rightarrow> jsval" where
  "paramOf_spec kv =
     (if endsWith (fst kv) ''_like'' then Str (''%'' @ toStr (snd kv) @ ''%'') else snd kv)"

definition buildSearchQuery_spec ::
  "string \<Rightarrow> (string \<times> jsval) list \<Rightarrow> jsval list \<Rightarrow> string \<times> jsval list" where
  "buildSearchQuery_spec baseQuery filters baseParams =
     (let live = filter liveFilter filters in
        (if live = [] then baseQuery
         else baseQuery @ (if includes_js baseQuery ''WHERE'' then '' AND '' else '' WHERE '')
                @ join '' AND '' (map (\<lambda>kv. clauseOf_spec (fst kv)) live),
         baseParams @ map paramOf_spec live))"

text \<open>A marker that no proper suffix of itself begins again.\<close>

definition unbordered :: "string \<Rightarrow> bool" where
  "unbordered p =
     (p \<noteq> [] \<and> list_all (\<lambda>n. drop n p \<noteq> take (length p - n) p) [1..<length p])"

section \<open>queryUtils: generateNextTransactionId\<close>

text \<open>
  A JavaScript number as far as this code meets it: \<open>NaN\<close> or an integer. Integers are
  exact in a double up to \<open>2^53\<close>.
\<close>

datatype jsnumber = NaN | Finite int

definition is_space :: "char \<Rightarrow> bool" where
  "is_space c = (c \<in> set [CHR '' '', CHR 0x09, CHR 0x0A, CHR 0x0B, CHR 0x0C, CHR 0x0D])"

definition is_hex :: "char \<Rightarrow> bool" where
  "is_hex c = (c \<in> set ''0123456789abcdefABCDEF'')"

definition hex_digit_val :: "char \<Rightarrow> nat" where
  "hex_digit_val c =
     (if is_digit c then of_char c - 48
      else if c \<in> set ''abcdef'' then of_char c - 87
      else of_char c - 55)"

definition hex_val :: "string \<Rightarrow> nat" where
  "hex_val hs = foldl (\<lambda>a c. 16 * a + hex_digit_val c) 0 hs"

text \<open>
  \<open>parseInt(str)\<close> without a radix: leading white space is skipped, a sign is read, a
  prefix \<open>0x\<close> selects base 16, and the longest run of digits is the value; no digit at
  all is \<open>NaN\<close>.
\<close>

definition parseInt :: "string \<Rightarrow> jsnumber" where
  "parseInt str =
     (let s = dropWhile is_space str;
          sign = (if s \<noteq> [] \<and> hd s = CHR ''-'' then - 1 else 1 :: int);
          body = (if s \<noteq> [] \<and> (hd s = CHR ''+'' \<or> hd s = CHR ''-'') then tl s else s)
      in if startsWith body ''0x'' \<or> startsWith body ''0X''
         then (let hs = takeWhile is_hex (drop 2 body)
               in if hs = [] then NaN else Finite (sign * int (hex_val hs)))
         else (let ds = takeWhile is_digit body
               in if ds = [] then NaN else Finite (sign * int (dec_val ds))))"

text \<open>\<open>lastNumber + 1\<close> and \<open>nextNumber.toString()\<close>.\<close>

fun addOne :: "jsnumber \<Rightarrow> jsnumber" where
  "addOne NaN = NaN"
| "addOne (Finite n) = Finite (n + 1)"

fun numberToString :: "jsnumber \<Rightarrow> string" where
  "numberToString NaN = ''NaN''"
| "numberToString (Finite n) = show_int n"

text \<open>\<open>s.padStart(n, c)\<close> with a one-character filler.\<close>

definition padStart :: "nat \<Rightarrow> char \<Rightarrow> string \<Rightarrow> string" where
  "padStart n c s = replicate (n - length s) c @ s"

text \<open>\<open>s.split(c)\<close> with a one-character separator, and \<open>s.split(c)[1]\<close>.\<close>

fun split_js :: "char \<Rightarrow> string \<Rightarrow> string list" where
  "split_js c [] = [[]]"
| "split_js c (x # xs) =
     (if x = c then [] # split_js c xs
      else (case split_js c xs of [] \<Rightarrow> [[x]] | w # ws \<Rightarrow> (x # w) # ws))"

definition secondPart :: "string \<Rightarrow> string" where
  "secondPart lastId =
     (case split_js CHR ''-'' lastId of
        _ # part # _ \<Rightarrow> part
      | _ \<Rightarrow> ''undefined'')"

text \<open>
  The query
  \<open>SELECT id FROM transactions WHERE id LIKE 'txn-%'
    ORDER BY CAST(SUBSTRING(id, 5) AS UNSIGNED) DESC LIMIT 1\<close>
  over the id column of the transactions table. \<open>SUBSTRING(id, 5)\<close> is the id from
  its fifth character on; the cast reads the leading digits and saturates at
  \<open>2^64 - 1\<close>. Of several rows with the greatest key the first one of the table is
  returned (SQL leaves their order open).
\<close>

definition castUnsigned :: "string \<Rightarrow> nat" where
  "castUnsigned s = min (dec_val (takeWhile is_digit s)) (2 ^ 64 - 1)"

definition suffixKey :: "string \<Rightarrow> nat" where
  "suffixKey ident = castUnsigned (drop 4 ident)"

fun maxBy :: "('a \<Rightarrow> nat) \<Rightarrow> 'a \<Rightarrow> 'a list \<Rightarrow> 'a" where
  "maxBy f best [] = best"
| "maxBy f best (x # xs) = maxBy f (if f best < f x then x else best) xs"

definition likeTxn :: "string \<Rightarrow> bool" where
  "likeTxn ident = startsWith ident ''txn-''"

definition selectLastTransactionId :: "string list \<Rightarrow> string list" where
  "selectLastTransactionId idColumn =
     (case filter likeTxn idColumn of
        [] \<Rightarrow> []
      | x # xs \<Rightarrow> [maxBy suffixKey x xs])"

definition generateNextTransactionId :: "string list \<Rightarrow> string" where
  "generateNextTransactionId idColumn =
     (case selectLastTransactionId idColumn of
        [] \<Rightarrow> ''txn-001''
      | lastId # _ \<Rightarrow>
          ''txn-'' @ padStart 3 CHR ''0'' (numberToString (addOne (parseInt (secondPart lastId)))))"

text \<open>
  An id of the sequential format: \<open>txn-\<close> followed by at least one digit, its number
  below \<open>2^53\<close>.
\<close>

definition sequentialId :: "string \<Rightarrow> bool" where
  "sequentialId ident =
     (drop 4 ident \<noteq> [] \<and> list_all is_digit (drop 4 ident) \<and> dec_val (drop 4 ident) < 2 ^ 53)"

definition idNumber :: "string \<Rightarrow> nat" where
  "idNumber ident = dec_val (drop 4 ident)"

section \<open>The datastore\<close>

text \<open>
  The tables the handlers read and write, with the columns their queries name. A row is
  a record, a table the list of its rows, and \<open>executeQuery\<close> a function of the
  database. Time stamps are numbers handed in by the caller (\<open>NOW()\<close>).
\<close>

record user_row =
  u_id :: string
  u_email :: string
  u_password_hash :: string

record profile_row =
  p_id :: string
  p_name :: string
  p_email :: string
  p_role :: string
  p_status :: bool
  p_last_login :: "nat option"

record category_row =
  c_id :: string
  c_name :: string

record subcategory_row =
  s_id :: string
  s_name :: string
  s_category_id :: string

record transaction_row =
  t_id :: string
  t_amount :: jsval
  t_type :: string
  t_description :: string
  t_date :: string
  t_category_id :: "string option"
  t_subcategory_id :: "string option"
  t_receipt_url :: "string option"
  t_updated_at :: nat

record database =
  users :: "user_row list"
  profiles :: "profile_row list"
  categories :: "category_row list"
  subcategories :: "subcategory_row list"
  transactions :: "transaction_row list"

section \<open>authMiddleware\<close>

text \<open>\<open>req.user\<close>, the identity that \<open>verifyToken\<close> attaches to the request.\<close>

record req_user =
  user_id :: string
  user_email :: string
  user_name :: string
  user_role :: string

text \<open>
  What a \<open>try\<close> block can throw here: an \<open>AppError\<close>, whose \<open>name\<close> is the
  inherited \<open>Error\<close>, or an error of a library, known by its \<open>name\<close>.
\<close>

datatype thrown = AppErr app_error | LibErr string

fun errorName :: "thrown \<Rightarrow> string" where
  "errorName (AppErr e) = ''Error''"
| "errorName (LibErr n) = n"

text \<open>
  \<open>jwt.verify(token, secret)\<close> of the jsonwebtoken library is a parameter of the model:
  it returns the payload, of which the \<open>userId\<close> is read, or throws an error with a
  \<open>name\<close> (\<open>JsonWebTokenError\<close>, \<open>TokenExpiredError\<close>, \<open>NotBeforeError\<close>).
\<close>

datatype jwt_result = Decoded string | JwtThrows string

text \<open>
  The query \<open>SELECT u.id, u.email, p.name, p.role, p.status FROM users u JOIN profiles p
  ON u.id = p.id WHERE u.id = ? AND p.status = 1\<close>.
\<close>

definition selectActiveUser :: "database \<Rightarrow> string \<Rightarrow> (user_row \<times> profile_row) list" where
  "selectActiveUser db userId =
     concat (map (\<lambda>u. map (\<lambda>p. (u, p))
                           (filter (\<lambda>p. u_id u = p_id p \<and> u_id u = userId \<and> p_status p) (profiles db)))
                 (users db))"

definition verifyTokenTry :: "(string \<Rightarrow> jwt_result) \<Rightarrow> database \<Rightarrow> string option \<Rightarrow> thrown + req_user" where
  "verifyTokenTry jwtVerify db authHeader =
     (case authHeader of
        None \<Rightarrow> Inl (AppErr (AppError ''Access denied. No token provided.'' 401 ''NO_TOKEN''))
      | Some h \<Rightarrow>
          if h = [] \<or> \<not> startsWith h ''Bearer ''
          then Inl (AppErr (AppError ''Access denied. No token provided.'' 401 ''NO_TOKEN''))
          else
            let token = drop 7 h in
            if token = []
            then Inl (AppErr (AppError ''Access denied. No token provided.'' 401 ''NO_TOKEN''))
            else
              (case jwtVerify token of
                 JwtThrows n \<Rightarrow> Inl (LibErr n)
               | Decoded userId \<Rightarrow>
                   (case selectActiveUser db userId of
                      [] \<Rightarrow> Inl (AppErr (AppError ''User not found or inactive.'' 401 ''USER_NOT_FOUND''))
                    | (u, p) # _ \<Rightarrow>
                        Inr \<lparr> user_id = u_id u, user_email = u_email u,
                              user_name = p_name p, user_role = p_role p \<rparr>)))"

text \<open>
  \<open>verifyToken\<close>: the \<open>catch\<close> block renames the two token errors and passes every
  other error on. \<open>Inr\<close> is \<open>next()\<close> with \<open>req.user\<close> set, \<open>Inl\<close> is
  \<open>next(error)\<close>.
\<close>

definition verifyToken :: "(string \<Rightarrow> jwt_result) \<Rightarrow> database \<Rightarrow> string option \<Rightarrow> thrown + req_user" where
  "verifyToken jwtVerify db authHeader =
     (case verifyTokenTry jwtVerify db authHeader of
        Inr u \<Rightarrow> Inr u
      | Inl error \<Rightarrow>
          if errorName error = ''JsonWebTokenError''
          then Inl (AppErr (AppError ''Invalid token.'' 401 ''INVALID_TOKEN''))
          else if errorName error = ''TokenExpiredError''
          then Inl (AppErr (AppError ''Token expired.'' 401 ''TOKEN_EXPIRED''))
          else Inl error)"

text \<open>The role gates; \<open>Inr u\<close> is \<open>next()\<close> with \<open>req.user = u\<close>.\<close>

definition requireAdmin :: "req_user option \<Rightarrow> app_error + req_user" where
  "requireAdmin user =
     (case user of
        None \<Rightarrow> Inl (AppError ''Authentication required.'' 401 ''AUTH_REQUIRED'')
      | Some u \<Rightarrow>
          if user_role u \<noteq> ''administrador''
          then Inl (AppError ''Admin access required.'' 403 ''ADMIN_REQUIRED'')
          else Inr u)"

definition requireAdminOrManager :: "req_user option \<Rightarrow> app_error + req_user" where
  "requireAdminOrManager user =
     (case user of
        None \<Rightarrow> Inl (AppError ''Authentication required.'' 401 ''AUTH_REQUIRED'')
      | Some u \<Rightarrow>
          if user_role u \<notin> set [''administrador'', ''gerente'']
          then Inl (AppError ''Admin or manager access required.'' 403 ''INSUFFICIENT_PERMISSIONS'')
          else Inr u)"

section \<open>validationMiddleware\<close>

text \<open>
  \<open>isUUID()\<close> of express-validator without a version: five groups of 8, 4, 4, 4 and 12
  hexadecimal digits, separated by hyphens. \<open>validateUUID\<close> throws the 400
  \<open>VALIDATION_ERROR\<close> of \<open>handleValidationErrors\<close> when the parameter is not one.
\<close>

definition isUUID :: "string \<Rightarrow> bool" where
  "isUUID s =
     (map length (split_js CHR ''-'' s) = [8, 4, 4, 4, 12]
      \<and> list_all (list_all is_hex) (split_js CHR ''-'' s))"

definition validateUUID :: "string \<Rightarrow> app_error option" where
  "validateUUID param =
     (if isUUID param then None
      else Some (AppError ''Validation failed'' 400 ''VALIDATION_ERROR''))"

section \<open>categoryRoutes and subcategoryRoutes: DELETE /:id\<close>





section \<open>userRoutes: deactivate, delete, reset-password\<close>

definition deactivateUser :: "database \<Rightarrow> req_user \<Rightarrow> string \<Rightarrow> (app_error + string) \<times> database" where
  "deactivateUser db user ident =
     (let existingUsers = filter (\<lambda>p. p_id p = ident) (profiles db) in
      if length existingUsers = 0
      then (Inl (AppError ''User not found'' 404 ''USER_NOT_FOUND''), db)
      else if ident = user_id user
      then (Inl (AppError ''Cannot deactivate your own account'' 400 ''CANNOT_DEACTIVATE_SELF''), db)
      else (Inr ''User deactivated successfully'',
            db \<lparr> profiles :=
                   map (\<lambda>p. if p_id p = ident then p \<lparr> p_status := False \<rparr> else p) (profiles db) \<rparr>))"

definition deleteUser :: "database \<Rightarrow> req_user \<Rightarrow> string \<Rightarrow> (app_error + string) \<times> database" where
  "deleteUser db user ident =
     (case filter (\<lambda>p. p_id p = ident) (profiles db) of
        [] \<Rightarrow> (Inl (AppError ''User not found'' 404 ''USER_NOT_FOUND''), db)
      | existing # _ \<Rightarrow>
          if ident = user_id user
          then (Inl (AppError ''Cannot delete your own account'' 400 ''CANNOT_DELETE_SELF''), db)
          else
            let userEmail = p_email existing in
            (Inr ''User permanently deleted successfully'',
             db \<lparr> profiles := filter (\<lambda>p. p_id p \<noteq> ident) (profiles db),
                  users := filter (\<lambda>u. u_email u \<noteq> userEmail) (users db) \<rparr>))"

text \<open>JavaScript truthiness, \<open>typeof v === 'string'\<close> and \<open>v.length\<close> of a string.\<close>

fun truthy :: "jsval \<Rightarrow> bool" where
  "truthy Undefined = False"
| "truthy Null = False"
| "truthy (Str s) = (s \<noteq> [])"
| "truthy (Num n) = (n \<noteq> 0)"
| "truthy (Bool b) = b"

fun isString :: "jsval \<Rightarrow> bool" where
  "isString (Str s) = True"
| "isString _ = False"

fun strLength :: "jsval \<Rightarrow> nat" where
  "strLength (Str s) = length s"
| "strLength _ = 0"

text \<open>\<open>bcrypt.hash\<close> is a parameter of the model.\<close>

definition resetPassword ::
  "(string \<Rightarrow> string) \<Rightarrow> database \<Rightarrow> req_user \<Rightarrow> string \<Rightarrow> jsval \<Rightarrow> (app_error + string) \<times> database" where
  "resetPassword bcryptHash db user ident newPassword =
     (if \<not> truthy newPassword \<or> \<not> isString newPassword \<or> strLength newPassword < 8
      then (Inl (AppError ''New password must be at least 8 characters long'' 400
                   ''INVALID_PASSWORD''), db)
      else
        let existingUsers = filter (\<lambda>u. u_id u = ident) (users db) in
        if length existingUsers = 0
        then (Inl (AppError ''User not found'' 404 ''USER_NOT_FOUND''), db)
        else if ident = user_id user
        then (Inl (AppError ''Use change-password endpoint to update your own password'' 400
                     ''CANNOT_RESET_OWN_PASSWORD''), db)
        else (Inr ''User password reset successfully'',
              db \<lparr> users :=
                     map (\<lambda>u. if u_id u = ident
                               then u \<lparr> u_password_hash := bcryptHash (toStr newPassword) \<rparr>
                               else u) (users db) \<rparr>))"

text \<open>
  The routes of the user router: \<open>router.use(requireAdmin)\<close>, then
  \<open>validateUUID('id')\<close>, then the handler.
\<close>

definition deactivateUserRoute ::
  "database \<Rightarrow> req_user option \<Rightarrow> string \<Rightarrow> (app_error + string) \<times> database" where
  "deactivateUserRoute db user ident =
     (case requireAdmin user of
        Inl e \<Rightarrow> (Inl e, db)
      | Inr u \<Rightarrow>
          (case validateUUID ident of
             Some e \<Rightarrow> (Inl e, db)
           | None \<Rightarrow> deactivateUser db u ident))"

definition deleteUserRoute ::
  "database \<Rightarrow> req_user option \<Rightarrow> string \<Rightarrow> (app_error + string) \<times> database" where
  "deleteUserRoute db user ident =
     (case requireAdmin user of
        Inl e \<Rightarrow> (Inl e, db)
      | Inr u \<Rightarrow>
          (case validateUUID ident of
             Some e \<Rightarrow> (Inl e, db)
           | None \<Rightarrow> deleteUser db u ident))"

definition resetPasswordRoute ::
  "(string \<Rightarrow> string) \<Rightarrow> database \<Rightarrow> req_user option \<Rightarrow> string \<Rightarrow> jsval
     \<Rightarrow> (app_error + string) \<times> database" where
  "resetPasswordRoute bcryptHash db user ident newPassword =
     (case requireAdmin user of
        Inl e \<Rightarrow> (Inl e, db)
      | Inr u \<Rightarrow>
          (case validateUUID ident of
             Some e \<Rightarrow> (Inl e, db)
           | None \<Rightarrow> resetPassword bcryptHash db u ident newPassword))"

section \<open>authUtils and authRoutes: formatUserResponse and login\<close>

text \<open>
  An object is the list of its entries. The destructuring
  \<open>const { password_hash, ...userWithoutPassword } = user\<close> keeps every entry whose key
  is not \<open>password_hash\<close>.
\<close>

definition formatUserResponse :: "(string \<times> jsval) list \<Rightarrow> (string \<times> jsval) list" where
  "formatUserResponse user = filter (\<lambda>kv. fst kv \<noteq> ''password_hash'') user"

record login_response =
  login_user :: "(string \<times> jsval) list"
  login_token :: string
  login_refreshToken :: string

text \<open>
  The query of the login handler joins users and profiles on the id and selects by the
  e-mail address. \<open>bcrypt.compare\<close> and \<open>jwt.sign\<close> are parameters.
\<close>

definition selectUserByEmail :: "database \<Rightarrow> string \<Rightarrow> (user_row \<times> profile_row) list" where
  "selectUserByEmail db email =
     concat (map (\<lambda>u. map (\<lambda>p. (u, p))
                           (filter (\<lambda>p. u_id u = p_id p \<and> u_email u = email) (profiles db)))
                 (users db))"

definition login ::
  "(string \<Rightarrow> string \<Rightarrow> bool) \<Rightarrow> (string \<Rightarrow> string \<Rightarrow> string) \<Rightarrow> nat \<Rightarrow> database \<Rightarrow> string \<Rightarrow> string
     \<Rightarrow> (app_error + login_response) \<times> database" where
  "login verifyPassword generateToken now db email password =
     (case selectUserByEmail db email of
        [] \<Rightarrow> (Inl (AppError ''Invalid email or password'' 401 ''INVALID_CREDENTIALS''), db)
      | (u, p) # _ \<Rightarrow>
          if \<not> p_status p
          then (Inl (AppError ''Account is deactivated'' 401 ''ACCOUNT_DEACTIVATED''), db)
          else if \<not> verifyPassword password (u_password_hash u)
          then (Inl (AppError ''Invalid email or password'' 401 ''INVALID_CREDENTIALS''), db)
          else
            (Inr \<lparr> login_user = formatUserResponse
                       [(''id'', Str (u_id u)), (''email'', Str (u_email u)),
                        (''name'', Str (p_name p)), (''role'', Str (p_role p))],
                   login_token = generateToken (u_id u) ''access'',
                   login_refreshToken = generateToken (u_id u) ''refresh'' \<rparr>,
             db \<lparr> profiles :=
                    map (\<lambda>q. if p_id q = u_id u then q \<lparr> p_last_login := Some now \<rparr> else q)
                        (profiles db) \<rparr>))"

section \<open>Example data\<close>

text \<open>A small database and a token verifier, on which the theorems are instantiated.\<close>

definition adminId :: string where
  "adminId = ''aaaaaaaa-aaaa-4aaa-8aaa-aaaaaaaaaaaa''"

definition managerId :: string where
  "managerId = ''bbbbbbbb-bbbb-4bbb-8bbb-bbbbbbbbbbbb''"

definition catWithSub :: string where
  "catWithSub = ''cccccccc-cccc-4ccc-8ccc-ccccccccccc1''"

definition catInUse :: string where
  "catInUse = ''cccccccc-cccc-4ccc-8ccc-ccccccccccc2''"

definition catFree :: string where
  "catFree = ''cccccccc-cccc-4ccc-8ccc-ccccccccccc3''"

definition subInUse :: string where
  "subInUse = ''dddddddd-dddd-4ddd-8ddd-ddddddddddd1''"

definition subFree :: string where
  "subFree = ''dddddddd-dddd-4ddd-8ddd-ddddddddddd2''"

definition exampleDb :: database where
  "exampleDb =
     \<lparr> users =
         [\<lparr> u_id = adminId, u_email = ''ana@example.org'', u_password_hash = ''$2b$12$hashA'' \<rparr>,
          \<lparr> u_id = managerId, u_email = ''rui@example.org'', u_password_hash = ''$2b$12$hashR'' \<rparr>],
       profiles =
         [\<lparr> p_id = adminId, p_name = ''Ana'', p_email = ''ana@example.org'',
            p_role = ''administrador'', p_status = True, p_last_login = None \<rparr>,
          \<lparr> p_id = managerId, p_name = ''Rui'', p_email = ''rui@example.org'',
            p_role = ''gerente'', p_status = False, p_last_login = None \<rparr>],
       categories =
         [\<lparr> c_id = catWithSub, c_name = ''Viagens'' \<rparr>,
          \<lparr> c_id = catInUse, c_name = ''Combustivel'' \<rparr>,
          \<lparr> c_id = catFree, c_name = ''Diversos'' \<rparr>],
       subcategories =
         [\<lparr> s_id = subInUse, s_name = ''Hotel'', s_category_id = catWithSub \<rparr>,
          \<lparr> s_id = subFree, s_name = ''Voo'', s_category_id = catWithSub \<rparr>],
       transactions =
         [\<lparr> t_id = ''txn-001'', t_amount = Num 120, t_type = ''saida'',
            t_description = ''Gasolina'', t_date = ''2024-01-05'',
            t_category_id = Some catInUse, t_subcategory_id = None,
            t_receipt_url = Some ''/uploads/r1.pdf'', t_updated_at = 1 \<rparr>,
          \<lparr> t_id = ''txn-002'', t_amount = Num 300, t_type = ''saida'',
            t_description = ''Hotel Lisboa'', t_date = ''2024-01-06'',
            t_category_id = None, t_subcategory_id = Some subInUse,
            t_receipt_url = None, t_updated_at = 1 \<rparr>] \<rparr>"

definition exampleJwtVerify :: "string \<Rightarrow> jwt_result" where
  "exampleJwtVerify token =
     (if token = ''good'' then Decoded adminId
      else if token = ''inactive'' then Decoded managerId
      else if token = ''ghost'' then Decoded ''eeeeeeee-eeee-4eee-8eee-eeeeeeeeeeee''
      else if token = ''expired'' then JwtThrows ''TokenExpiredError''
      else JwtThrows ''JsonWebTokenError'')"

definition exampleAdmin :: req_user where
  "exampleAdmin =
     \<lparr> user_id = adminId, user_email = ''ana@example.org'', user_name = ''Ana'',
       user_role = ''administrador'' \<rparr>"

definition exampleVerifyPassword :: "string \<Rightarrow> string \<Rightarrow> bool" where
  "exampleVerifyPassword password hash = (password = ''segredo1'' \<and> hash = ''$2b$12$hashA'')"

definition exampleGenerateToken :: "string \<Rightarrow> string \<Rightarrow> string" where
  "exampleGenerateToken userId kind = kind @ '':'' @ userId"

section \<open>Pagination: responseUtils.calculatePagination and the list handlers\<close>

text \<open>
  \<open>Math.ceil(a / b)\<close> of two integers: the ceiling of the quotient, or, for a zero
  divisor, an infinity or \<open>NaN\<close>.
\<close>

datatype jsquotient = Quotient int | PlusInfinity | MinusInfinity | QuotientNaN

definition mathCeilDiv :: "int \<Rightarrow> int \<Rightarrow> jsquotient" where
  "mathCeilDiv a b =
     (if b = 0
      then (if a = 0 then QuotientNaN else if 0 < a then PlusInfinity else MinusInfinity)
      else Quotient (- ((- a) div b)))"


record pagination =
  currentPage :: int
  totalPages :: jsquotient
  totalItems :: int
  itemsPerPage :: int
  hasNextPage :: bool
  hasPrevPage :: bool


text \<open>
  \<open>parseInt(req.query.x) || d\<close>: an absent parameter is \<open>undefined\<close>, which parses to
  \<open>NaN\<close>; \<open>NaN\<close> and \<open>0\<close> are falsy and give the default.
\<close>

definition queryInt :: "string option \<Rightarrow> jsnumber" where
  "queryInt q = (case q of None \<Rightarrow> parseInt ''undefined'' | Some s \<Rightarrow> parseInt s)"

definition orDefault :: "jsnumber \<Rightarrow> int \<Rightarrow> int" where
  "orDefault x d = (case x of NaN \<Rightarrow> d | Finite n \<Rightarrow> if n = 0 then d else n)"

text \<open>The first three lines of a list handler: page, limit and offset.\<close>

definition pageWindow :: "int \<Rightarrow> string option \<Rightarrow> string option \<Rightarrow> int \<times> int \<times> int" where
  "pageWindow defaultLimit pageQ limitQ =
     (let page = orDefault (queryInt pageQ) 1;
          limit = orDefault (queryInt limitQ) defaultLimit;
          offset = (page - 1) * limit
      in (page, limit, offset))"

text \<open>
  \<open>LIMIT ? OFFSET ?\<close> over the rows that the query selects, in its \<open>ORDER BY\<close> order.
  The datastore refuses a negative limit or offset; the driver's error has the name
  \<open>Error\<close>.
\<close>

definition sqlLimitOffset :: "int \<Rightarrow> int \<Rightarrow> 'a list \<Rightarrow> thrown + 'a list" where
  "sqlLimitOffset limit offset rows =
     (if limit < 0 \<or> offset < 0 then Inl (LibErr ''Error'')
      else Inr (take (nat limit) (drop (nat offset) rows)))"

record 'row list_response =
  resp_data :: "'row list"
  resp_page :: int
  resp_limit :: int
  resp_total :: int
  resp_totalPages :: jsquotient

text \<open>
  The handler of a list route (users, profiles, categories, subcategories,
  transactions), given the rows
  that its \<open>WHERE\<close> clause selects in the order of its \<open>ORDER BY\<close>: the count query
  gives their number, the page query the window.
\<close>

definition listPage ::
  "int \<Rightarrow> string option \<Rightarrow> string option \<Rightarrow> 'row list \<Rightarrow> thrown + 'row list_response" where
  "listPage defaultLimit pageQ limitQ selected =
     (case pageWindow defaultLimit pageQ limitQ of (page, limit, offset) \<Rightarrow>
        let totalCount = int (length selected) in
        (case sqlLimitOffset limit offset selected of
           Inl e \<Rightarrow> Inl e
         | Inr rows \<Rightarrow>
             let totalPages = mathCeilDiv totalCount limit in
             Inr \<lparr> resp_data = rows, resp_page = page, resp_limit = limit,
                   resp_total = totalCount, resp_totalPages = totalPages \<rparr>))"

text \<open>
  \<open>validatePagination\<close>: \<open>query('page').optional().isInt({ min: 1 })\<close> and
  \<open>query('limit').optional().isInt({ min: 1, max: 100 })\<close>. \<open>isInt\<close> of validator.js
  accepts an optional sign followed by at least one digit and compares the number the
  string stands for with the bounds; an absent parameter is not checked. A violation
  throws the 400 \<open>VALIDATION_ERROR\<close> of \<open>handleValidationErrors\<close>.
\<close>

definition intText :: "string \<Rightarrow> int option" where
  "intText s =
     (case s of
        [] \<Rightarrow> None
      | c # rest \<Rightarrow>
          let body = (if c = CHR ''+'' \<or> c = CHR ''-'' then rest else s) in
          if body \<noteq> [] \<and> list_all is_digit body
          then Some ((if c = CHR ''-'' then - 1 else 1) * int (dec_val body))
          else None)"

definition isInt :: "int \<Rightarrow> int option \<Rightarrow> string \<Rightarrow> bool" where
  "isInt lo hi s =
     (case intText s of
        None \<Rightarrow> False
      | Some v \<Rightarrow> lo \<le> v \<and> (case hi of None \<Rightarrow> True | Some h \<Rightarrow> v \<le> h))"

definition validatePagination :: "string option \<Rightarrow> string option \<Rightarrow> app_error option" where
  "validatePagination pageQ limitQ =
     (if (case pageQ of None \<Rightarrow> True | Some s \<Rightarrow> isInt 1 None s)
         \<and> (case limitQ of None \<Rightarrow> True | Some s \<Rightarrow> isInt 1 (Some 100) s)
      then None
      else Some (AppError ''Validation failed'' 400 ''VALIDATION_ERROR''))"

text \<open>
  A list route: \<open>validatePagination\<close>, then the handler. The routers stand behind
  \<open>verifyToken\<close>, whose outcome is \<open>req.user\<close>; the user list asks for an
  administrator and the profile list for an administrator or manager before the
  validation.
\<close>

definition listRoute ::
  "int \<Rightarrow> string option \<Rightarrow> string option \<Rightarrow> 'row list \<Rightarrow> thrown + 'row list_response" where
  "listRoute defaultLimit pageQ limitQ selected =
     (case validatePagination pageQ limitQ of
        Some e \<Rightarrow> Inl (AppErr e)
      | None \<Rightarrow> listPage defaultLimit pageQ limitQ selected)"




definition listSubcategories :: "string option \<Rightarrow> string option \<Rightarrow> 'row list \<Rightarrow> thrown + 'row list_response" where
  "listSubcategories = listRoute 50"

definition listTransactions :: "string option \<Rightarrow> string option \<Rightarrow> 'row list \<Rightarrow> thrown + 'row list_response" where
  "listTransactions = listRoute 20"

section \<open>Paths and the file system\<close>

text \<open>
  \<open>path.join\<close> and \<open>path.normalize\<close> of Node on POSIX. A path is cut at its slashes;
  empty segments and \<open>.\<close> are dropped, \<open>..\<close> removes the segment before it, or is
  kept when there is none to remove and the path is relative.
\<close>

definition normStep :: "bool \<Rightarrow> string list \<Rightarrow> string \<Rightarrow> string list" where
  "normStep allowAboveRoot res seg =
     (if seg = [] \<or> seg = ''.'' then res
      else if seg = ''..''
      then (if res \<noteq> [] \<and> last res \<noteq> ''..'' then butlast res
            else if allowAboveRoot then res @ [''..''] else res)
      else res @ [seg])"

definition isAbsolute :: "string \<Rightarrow> bool" where
  "isAbsolute path = (path \<noteq> [] \<and> hd path = CHR ''/'')"

definition normalizeSegments :: "string \<Rightarrow> string list" where
  "normalizeSegments path =
     foldl (normStep (\<not> isAbsolute path)) [] (split_js CHR ''/'' path)"

definition normalize :: "string \<Rightarrow> string" where
  "normalize path =
     (if path = [] then ''.''
      else
        let trailingSeparator = (last path = CHR ''/'');
            res = join ''/'' (normalizeSegments path)
        in if res = []
           then (if isAbsolute path then ''/'' else if trailingSeparator then ''./'' else ''.'')
           else (if isAbsolute path then ''/'' else []) @ res
                  @ (if trailingSeparator then ''/'' else []))"

definition pathJoin :: "string list \<Rightarrow> string" where
  "pathJoin args =
     (let parts = filter (\<lambda>arg. arg \<noteq> []) args
      in if parts = [] then ''.'' else normalize (join ''/'' parts))"

text \<open>
  \<open>path.extname\<close> of a file name without a slash, and \<open>toLowerCase\<close> on ASCII.
\<close>

definition extname :: "string \<Rightarrow> string" where
  "extname name =
     (let afterDot = takeWhile (\<lambda>c. c \<noteq> CHR ''.'') (rev name)
      in if length afterDot = length name \<or> length afterDot + 1 = length name
            \<or> name = ''..'' then []
         else drop (length name - length afterDot - 1) name)"

definition toLowerCase :: "string \<Rightarrow> string" where
  "toLowerCase s =
     map (\<lambda>c. if (65::nat) \<le> of_char c \<and> of_char c \<le> (90::nat)
               then char_of (of_char c + (32::nat)) else c) s"

text \<open>
  The file system: the files with their \<open>stat\<close> data, and the faults of the operating system,
  a function that tells for an operation on a path the error code it fails with (a
  permission, a directory in place of a file), if any. A missing file is \<open>ENOENT\<close>.
\<close>

datatype fs_op = Exists string | Access string | Stat string | Unlink string | ReadStream string

record file_stats =
  st_size :: nat
  st_birthtime :: nat
  st_mtime :: nat

record filesystem =
  fs_files :: "(string \<times> file_stats) list"
  fs_fault :: "fs_op \<Rightarrow> string option"

definition fsAccess :: "filesystem \<Rightarrow> string \<Rightarrow> string + unit" where
  "fsAccess fs path =
     (case fs_fault fs (Access path) of
        Some code \<Rightarrow> Inl code
      | None \<Rightarrow> if path \<in> fst ` set (fs_files fs) then Inr () else Inl ''ENOENT'')"

definition fsStat :: "filesystem \<Rightarrow> string \<Rightarrow> string + file_stats" where
  "fsStat fs path =
     (case fs_fault fs (Stat path) of
        Some code \<Rightarrow> Inl code
      | None \<Rightarrow> (case map_of (fs_files fs) path of Some stats \<Rightarrow> Inr stats | None \<Rightarrow> Inl ''ENOENT''))"

definition fsUnlink :: "filesystem \<Rightarrow> string \<Rightarrow> string + filesystem" where
  "fsUnlink fs path =
     (case fs_fault fs (Unlink path) of
        Some code \<Rightarrow> Inl code
      | None \<Rightarrow>
          if path \<in> fst ` set (fs_files fs)
          then Inr (fs \<lparr> fs_files := filter (\<lambda>entry. fst entry \<noteq> path) (fs_files fs) \<rparr>)
          else Inl ''ENOENT'')"

definition existsSync :: "filesystem \<Rightarrow> string \<Rightarrow> bool" where
  "existsSync fs path = (fs_fault fs (Exists path) = None \<and> path \<in> fst ` set (fs_files fs))"

section \<open>fileRoutes: delete, info and view\<close>

text \<open>The security check on \<open>req.params.filename\<close>, as the three handlers write it.\<close>

definition invalidFilename :: "string \<Rightarrow> bool" where
  "invalidFilename filename =
     (filename = [] \<or> includes_js filename ''..'' \<or> includes_js filename ''/''
      \<or> includes_js filename [CHR 0x5C])"

text \<open>\<open>process.env.UPLOAD_DIR || 'uploads'\<close>\<close>

definition uploadDir :: "string option \<Rightarrow> string" where
  "uploadDir env = (case env of None \<Rightarrow> ''uploads'' | Some d \<Rightarrow> if d = [] then ''uploads'' else d)"

text \<open>
  What a file handler hands to \<open>next\<close>: an \<open>AppError\<close>, or the error of the file
  system with its code. The inner \<open>catch\<close> turns \<open>ENOENT\<close> into the 404 error.
\<close>

datatype file_failure = Rejected app_error | FsError string

definition catchFsError :: "string \<Rightarrow> file_failure" where
  "catchFsError code =
     (if code = ''ENOENT'' then Rejected (AppError ''File not found'' 404 ''FILE_NOT_FOUND'')
      else FsError code)"

text \<open>
  Each handler returns its answer and the operations on the file system it has made, in
  order; the delete handler also returns the file system it leaves.
\<close>

definition deleteFile ::
  "string option \<Rightarrow> filesystem \<Rightarrow> string \<Rightarrow> (file_failure + string) \<times> filesystem \<times> fs_op list" where
  "deleteFile env fs filename =
     (if invalidFilename filename
      then (Inl (Rejected (AppError ''Invalid filename'' 400 ''INVALID_FILENAME'')), fs, [])
      else
        let filePath = pathJoin [uploadDir env, filename] in
        (case fsAccess fs filePath of
           Inl code \<Rightarrow> (Inl (catchFsError code), fs, [Access filePath])
         | Inr _ \<Rightarrow>
             (case fsUnlink fs filePath of
                Inl code \<Rightarrow> (Inl (catchFsError code), fs, [Access filePath, Unlink filePath])
              | Inr fs' \<Rightarrow>
                  (Inr ''File deleted successfully'', fs', [Access filePath, Unlink filePath]))))"

record file_info =
  info_filename :: string
  info_size :: nat
  info_created :: nat
  info_modified :: nat
  info_url :: string

definition getFileInfo ::
  "string option \<Rightarrow> filesystem \<Rightarrow> string \<Rightarrow> (file_failure + file_info) \<times> fs_op list" where
  "getFileInfo env fs filename =
     (if invalidFilename filename
      then (Inl (Rejected (AppError ''Invalid filename'' 400 ''INVALID_FILENAME'')), [])
      else
        let filePath = pathJoin [uploadDir env, filename] in
        (case fsStat fs filePath of
           Inl code \<Rightarrow> (Inl (catchFsError code), [Stat filePath])
         | Inr stats \<Rightarrow>
             (Inr \<lparr> info_filename = filename, info_size = st_size stats,
                    info_created = st_birthtime stats, info_modified = st_mtime stats,
                    info_url = ''/uploads/'' @ filename \<rparr>,
              [Stat filePath])))"

record view_response =
  view_contentType :: string
  view_contentLength :: nat
  view_stream :: string

definition contentTypeOf :: "string \<Rightarrow> string" where
  "contentTypeOf ext =
     (if ext = ''.pdf'' then ''application/pdf''
      else if ext = ''.jpg'' \<or> ext = ''.jpeg'' then ''image/jpeg''
      else if ext = ''.png'' then ''image/png''
      else if ext = ''.gif'' then ''image/gif''
      else ''application/octet-stream'')"

definition viewFile ::
  "string option \<Rightarrow> filesystem \<Rightarrow> string \<Rightarrow> (file_failure + view_response) \<times> fs_op list" where
  "viewFile env fs filename =
     (if invalidFilename filename
      then (Inl (Rejected (AppError ''Invalid filename'' 400 ''INVALID_FILENAME'')), [])
      else
        let filePath = pathJoin [uploadDir env, filename] in
        (case fsAccess fs filePath of
           Inl code \<Rightarrow> (Inl (catchFsError code), [Access filePath])
         | Inr _ \<Rightarrow>
             (case fsStat fs filePath of
                Inl code \<Rightarrow> (Inl (catchFsError code), [Access filePath, Stat filePath])
              | Inr stats \<Rightarrow>
                  let ext = toLowerCase (extname filename);
                      contentType = contentTypeOf ext
                  in (Inr \<lparr> view_contentType = contentType,
                            view_contentLength = st_size stats,
                            view_stream = filePath \<rparr>,
                      [Access filePath, Stat filePath, ReadStream filePath]))))"

text \<open>
  The routes: delete and info stand behind \<open>requireAdminOrManager\<close>, view behind the
  router's \<open>verifyToken\<close> only.
\<close>

definition deleteFileRoute ::
  "string option \<Rightarrow> filesystem \<Rightarrow> req_user option \<Rightarrow> string
     \<Rightarrow> (file_failure + string) \<times> filesystem \<times> fs_op list" where
  "deleteFileRoute env fs user filename =
     (case requireAdminOrManager user of
        Inl e \<Rightarrow> (Inl (Rejected e), fs, [])
      | Inr u \<Rightarrow> deleteFile env fs filename)"

definition getFileInfoRoute ::
  "string option \<Rightarrow> filesystem \<Rightarrow> req_user option \<Rightarrow> string
     \<Rightarrow> (file_failure + file_info) \<times> fs_op list" where
  "getFileInfoRoute env fs user filename =
     (case requireAdminOrManager user of
        Inl e \<Rightarrow> (Inl (Rejected e), [])
      | Inr u \<Rightarrow> getFileInfo env fs filename)"

text \<open>The path an operation works on.\<close>

fun opPath :: "fs_op \<Rightarrow> string" where
  "opPath (Exists p) = p"
| "opPath (Access p) = p"
| "opPath (Stat p) = p"
| "opPath (Unlink p) = p"
| "opPath (ReadStream p) = p"
definition exampleFs :: filesystem where
  "exampleFs =
     \<lparr> fs_files = [(''uploads/r1.pdf'', \<lparr> st_size = 2048, st_birthtime = 5, st_mtime = 6 \<rparr>)],
       fs_fault = (\<lambda>operation. None) \<rparr>"


section \<open>transactionRoutes: update, delete and remove-file\<close>

text \<open>
  The handlers work on the database, the file system and the console. In the body of a
  PUT request \<open>type\<close>, \<open>description\<close> and \<open>date\<close> are strings, \<open>category_id\<close> and
  \<open>subcategory_id\<close> are strings or absent, and \<open>amount\<close> and \<open>comprovativo_url\<close> are
  any JSON scalar or absent (\<open>Undefined\<close>).
\<close>

record world =
  w_db :: database
  w_fs :: filesystem
  w_console :: "string list"





text \<open>
  The body of the \<open>try\<close> block that the three handlers share: the file name is the
  part of the stored URL behind its last slash, the path is
  \<open>path.join(__dirname, '../../uploads', filename)\<close>, and the file is unlinked when
  \<open>fs.existsSync\<close> finds it. \<open>Inl code\<close> is the error that \<open>fs.unlinkSync\<close> throws.
\<close>

definition receiptPath :: "string \<Rightarrow> string \<Rightarrow> string" where
  "receiptPath dirname url =
     (let filename = last (split_js CHR ''/'' url)
      in pathJoin [dirname, ''../../uploads'', filename])"

definition unlinkReceipt :: "string \<Rightarrow> filesystem \<Rightarrow> string \<Rightarrow> string + filesystem" where
  "unlinkReceipt dirname fs url =
     (let filePath = receiptPath dirname url
      in if existsSync fs filePath then fsUnlink fs filePath else Inr fs)"

text \<open>
  The \<open>try\<close> with the \<open>catch\<close> of the update and delete handlers: the error is
  written to the console and the handler goes on.
\<close>

definition unlinkReceiptBestEffort :: "string \<Rightarrow> string \<Rightarrow> world \<Rightarrow> string \<Rightarrow> world" where
  "unlinkReceiptBestEffort errorLine dirname w url =
     (case unlinkReceipt dirname (w_fs w) url of
        Inr fs' \<Rightarrow> w \<lparr> w_fs := fs' \<rparr>
      | Inl code \<Rightarrow> w \<lparr> w_console := w_console w @ [errorLine @ code] \<rparr>)"























chapter \<open>Properties\<close>

section \<open>Properties of buildUpdateQuery\<close>

lemma fold_pushUpdate:
  "fold pushUpdate updates (fs, vs) =
     (fs @ map (\<lambda>kv. fst kv @ '' = ?'') (definedEntries updates),
      vs @ map snd (definedEntries updates))"
proof (induction updates arbitrary: fs vs)
  case Nil
  show ?case by (simp add: definedEntries_def)
next
  case (Cons kv updates)
  obtain k v where kv: "kv = (k, v)" by (cases kv)
  show ?case
  proof (cases "v = Undefined")
    case True
    with kv Cons.IH [of fs vs] show ?thesis
      by (simp add: pushUpdate_def definedEntries_def)
  next
    case False
    with kv Cons.IH [of "fs @ [k @ '' = ?'']" "vs @ [v]"] show ?thesis
      by (simp add: pushUpdate_def definedEntries_def)
  qed
qed

text \<open>
  C2. \<open>buildUpdateQuery\<close> drops every entry whose value is \<open>undefined\<close>; when no
  defined entry remains it throws the 400 error \<open>NO_UPDATE_FIELDS\<close>; otherwise the SET
  list is exactly the defined fields, in order, followed by the \<open>updated_at\<close> touch, and
  the parameters are the defined values in order followed by the where-parameters. The
  example of the specification, \<open>{name: 'A', phone: undefined}\<close>, touches only
  \<open>name\<close> and the timestamp, with parameters \<open>['A', id]\<close>.
\<close>

theorem buildUpdateQuery_defined_fields:
  "buildUpdateQuery table updates whereClause whereParams =
     (if definedEntries updates = []
      then Inl (AppError ''No fields to update'' 400 ''NO_UPDATE_FIELDS'')
      else Inr (''UPDATE '' @ table @ '' SET ''
                  @ join '', '' (map (\<lambda>kv. fst kv @ '' = ?'') (definedEntries updates))
                  @ '', updated_at = NOW() WHERE '' @ whereClause,
                map snd (definedEntries updates) @ whereParams))
   \<and> buildUpdateQuery ''profiles'' [(''name'', Str ''A''), (''phone'', Undefined)] ''id = ?'' [ident]
       = Inr (''UPDATE profiles SET name = ?, updated_at = NOW() WHERE id = ?'', [Str ''A'', ident])"
proof
  show "buildUpdateQuery table updates whereClause whereParams =
     (if definedEntries updates = []
      then Inl (AppError ''No fields to update'' 400 ''NO_UPDATE_FIELDS'')
      else Inr (''UPDATE '' @ table @ '' SET ''
                  @ join '', '' (map (\<lambda>kv. fst kv @ '' = ?'') (definedEntries updates))
                  @ '', updated_at = NOW() WHERE '' @ whereClause,
                map snd (definedEntries updates) @ whereParams))"
    by (simp add: buildUpdateQuery_def fold_pushUpdate)
  show "buildUpdateQuery ''profiles'' [(''name'', Str ''A''), (''phone'', Undefined)] ''id = ?'' [ident]
       = Inr (''UPDATE profiles SET name = ?, updated_at = NOW() WHERE id = ?'', [Str ''A'', ident])"
    by (simp add: buildUpdateQuery_def pushUpdate_def)
qed

theorem buildUpdateQuery_defined_fields_witness:
  "buildUpdateQuery ''profiles'' [(''phone'', Undefined)] ''id = ?'' [Str ''u1'']
     = Inl (AppError ''No fields to update'' 400 ''NO_UPDATE_FIELDS'')
   \<and> buildUpdateQuery ''profiles'' [(''name'', Str ''A''), (''phone'', Undefined)] ''id = ?'' [Str ''u1'']
       = Inr (''UPDATE profiles SET name = ?, updated_at = NOW() WHERE id = ?'', [Str ''A'', Str ''u1''])"
  using buildUpdateQuery_defined_fields [of "''profiles''" "[(''phone'', Undefined)]" "''id = ?''" "[Str ''u1'']" "Str ''u1''"]
  by (simp add: definedEntries_def)

section \<open>Properties of buildSearchQuery\<close>

lemma fold_pushFilter:
  "fold pushFilter filters (cs, ps) =
     (cs @ map (\<lambda>kv. clauseOf (fst kv)) (filter liveFilter filters),
      ps @ map paramOf (filter liveFilter filters))"
proof (induction filters arbitrary: cs ps)
  case Nil
  show ?case by simp
next
  case (Cons kv filters)
  obtain k v where kv: "kv = (k, v)" by (cases kv)
  show ?case
    unfolding kv fold_simps
    by (simp add: pushFilter_def liveFilter_def clauseOf_def paramOf_def Cons.IH
          del: includes_js.simps removeFirst.simps)
qed

lemma buildSearchQuery_eq:
  "buildSearchQuery baseQuery filters baseParams =
     (if filter liveFilter filters = [] then baseQuery
      else baseQuery @ (if includes_js baseQuery ''WHERE'' then '' AND '' else '' WHERE '')
             @ join '' AND '' (map (\<lambda>kv. clauseOf (fst kv)) (filter liveFilter filters)),
      baseParams @ map paramOf (filter liveFilter filters))"
  by (simp add: buildSearchQuery_def fold_pushFilter del: includes_js.simps)

lemma includes_js_suffix: "includes_js (col @ p) p"
proof (induction col)
  case Nil
  show ?case by (cases p) (simp_all add: startsWith_def)
next
  case (Cons c col)
  then show ?case by simp
qed

lemma startsWith_append_unbordered:
  assumes u: "unbordered p" and ne: "col \<noteq> []" and ns: "\<not> startsWith col p"
  shows "\<not> startsWith (col @ p) p"
proof
  assume sw: "startsWith (col @ p) p"
  show False
  proof (cases "length p \<le> length col")
    case True
    with sw ns show False by (simp add: startsWith_def)
  next
    case False
    let ?n = "length col"
    from sw False have eq: "col @ take (length p - ?n) p = p"
      by (simp add: startsWith_def)
    have "drop ?n p = drop ?n (col @ take (length p - ?n) p)"
      using eq by simp
    then have "drop ?n p = take (length p - ?n) p" by simp
    moreover have "?n \<in> set [1..<length p]"
      using ne False by (cases col) simp_all
    moreover from u have "\<forall>k \<in> set [1..<length p]. drop k p \<noteq> take (length p - k) p"
      by (simp add: unbordered_def list_all_iff)
    ultimately show False by blast
  qed
qed

lemma removeFirst_suffix:
  assumes u: "unbordered p"
  shows "\<not> includes_js col p \<Longrightarrow> removeFirst (col @ p) p = col"
proof (induction col)
  case Nil
  from u obtain c cs where "p = c # cs" by (cases p) (simp_all add: unbordered_def)
  then show ?case by (simp add: startsWith_def)
next
  case (Cons c col)
  from Cons.prems have ns: "\<not> startsWith (c # col) p" and ni: "\<not> includes_js col p"
    by simp_all
  from startsWith_append_unbordered [OF u _ ns] have "\<not> startsWith ((c # col) @ p) p"
    by simp
  with Cons.IH [OF ni] show ?case by simp
qed

lemma unbordered_markers:
  "unbordered ''_like''" "unbordered ''_date_from''" "unbordered ''_date_to''"
  by (simp_all add: unbordered_def upt_rec)

lemma clauseOf_like:
  "\<not> includes_js col ''_like'' \<Longrightarrow> clauseOf (col @ ''_like'') = col @ '' LIKE ?''"
  using removeFirst_suffix [OF unbordered_markers(1), of col] includes_js_suffix [of col "''_like''"]
  by (simp add: clauseOf_def)

lemma clauseOf_date_from:
  "\<not> includes_js (col @ ''_date_from'') ''_like'' \<Longrightarrow> \<not> includes_js col ''_date_from''
     \<Longrightarrow> clauseOf (col @ ''_date_from'') = col @ '' >= ?''"
  using removeFirst_suffix [OF unbordered_markers(2), of col]
    includes_js_suffix [of col "''_date_from''"]
  by (simp add: clauseOf_def)

lemma clauseOf_date_to:
  "\<not> includes_js (col @ ''_date_to'') ''_like''
     \<Longrightarrow> \<not> includes_js (col @ ''_date_to'') ''_date_from''
     \<Longrightarrow> \<not> includes_js col ''_date_to''
     \<Longrightarrow> clauseOf (col @ ''_date_to'') = col @ '' <= ?''"
  using removeFirst_suffix [OF unbordered_markers(3), of col]
    includes_js_suffix [of col "''_date_to''"]
  by (simp add: clauseOf_def)

text \<open>
  C3, as the specification states it, fails: a key that merely contains \<open>_like\<close> is a
  LIKE filter although it does not end in it (\<open>is_liked\<close> becomes the column
  \<open>isd\<close>), and the column of a key ending in \<open>_like\<close> loses the first occurrence of
  the marker, not the suffix.
\<close>

theorem buildSearchQuery_suffix_counterexample:
  "buildSearchQuery ''SELECT * FROM t'' [(''is_liked'', Str ''1'')] []
     = (''SELECT * FROM t WHERE isd LIKE ?'', [Str ''%1%''])
   \<and> buildSearchQuery_spec ''SELECT * FROM t'' [(''is_liked'', Str ''1'')] []
     = (''SELECT * FROM t WHERE is_liked = ?'', [Str ''1''])
   \<and> buildSearchQuery ''SELECT * FROM t'' [(''a_like_b_like'', Str ''1'')] []
     = (''SELECT * FROM t WHERE a_b_like LIKE ?'', [Str ''%1%''])
   \<and> buildSearchQuery_spec ''SELECT * FROM t'' [(''a_like_b_like'', Str ''1'')] []
     = (''SELECT * FROM t WHERE a_like_b LIKE ?'', [Str ''%1%''])"
  by (simp add: buildSearchQuery_def pushFilter_def buildSearchQuery_spec_def liveFilter_def
        clauseOf_spec_def paramOf_spec_def endsWith_def startsWith_def)

text \<open>
  C3, amended. \<open>buildSearchQuery\<close> skips the entries whose value is \<open>undefined\<close>,
  \<open>null\<close> or the empty string. Each remaining key that contains \<open>_like\<close> gives a LIKE
  predicate with the value wrapped in \<open>%\<close>; otherwise a key that contains
  \<open>_date_from\<close> gives \<open>>=\<close>; otherwise a key that contains \<open>_date_to\<close> gives
  \<open><=\<close>; the column is the key with the first occurrence of the marker removed; every
  other key gives an equality. The predicates are joined with \<open>AND\<close> and appended with
  \<open>AND\<close> when the base query contains \<open>WHERE\<close>, with \<open>WHERE\<close> otherwise, and the
  parameters are the base parameters followed by the filter values in order. For a key
  that ends in its marker and contains no marker elsewhere, the column is the key without
  the suffix.
\<close>

theorem buildSearchQuery_markers:
  "buildSearchQuery baseQuery filters baseParams =
     (if filter liveFilter filters = [] then baseQuery
      else baseQuery @ (if includes_js baseQuery ''WHERE'' then '' AND '' else '' WHERE '')
             @ join '' AND '' (map (\<lambda>kv. clauseOf (fst kv)) (filter liveFilter filters)),
      baseParams @ map paramOf (filter liveFilter filters))
   \<and> (\<not> includes_js col ''_like'' \<longrightarrow>
        clauseOf (col @ ''_like'') = col @ '' LIKE ?''
        \<and> paramOf (col @ ''_like'', v) = Str (''%'' @ toStr v @ ''%''))
   \<and> (\<not> includes_js (col @ ''_date_from'') ''_like'' \<and> \<not> includes_js col ''_date_from'' \<longrightarrow>
        clauseOf (col @ ''_date_from'') = col @ '' >= ?''
        \<and> paramOf (col @ ''_date_from'', v) = v)
   \<and> (\<not> includes_js (col @ ''_date_to'') ''_like''
        \<and> \<not> includes_js (col @ ''_date_to'') ''_date_from''
        \<and> \<not> includes_js col ''_date_to'' \<longrightarrow>
        clauseOf (col @ ''_date_to'') = col @ '' <= ?''
        \<and> paramOf (col @ ''_date_to'', v) = v)
   \<and> (\<not> includes_js key ''_like'' \<and> \<not> includes_js key ''_date_from''
        \<and> \<not> includes_js key ''_date_to'' \<longrightarrow>
        clauseOf key = key @ '' = ?'' \<and> paramOf (key, v) = v)"
  using buildSearchQuery_eq [of baseQuery filters baseParams]
    clauseOf_like [of col] clauseOf_date_from [of col] clauseOf_date_to [of col]
    includes_js_suffix [of col "''_like''"]
  by (simp add: paramOf_def clauseOf_def del: includes_js.simps removeFirst.simps)

theorem buildSearchQuery_markers_witness:
  "buildSearchQuery ''SELECT * FROM t WHERE a = ?''
      [(''name_like'', Str ''bo''), (''x'', Null), (''d_date_from'', Str ''2020''),
       (''d_date_to'', Num 5), (''k'', Bool True), (''e'', Str ''''), (''u'', Undefined)] [Num 1]
     = (''SELECT * FROM t WHERE a = ? AND name LIKE ? AND d >= ? AND d <= ? AND k = ?'',
        [Num 1, Str ''%bo%'', Str ''2020'', Num 5, Bool True])
   \<and> \<not> includes_js ''d'' ''_like''
   \<and> clauseOf (''d'' @ ''_like'') = ''d'' @ '' LIKE ?''
   \<and> \<not> includes_js (''d'' @ ''_date_from'') ''_like'' \<and> \<not> includes_js ''d'' ''_date_from''
   \<and> clauseOf (''d'' @ ''_date_from'') = ''d'' @ '' >= ?''
   \<and> \<not> includes_js (''d'' @ ''_date_to'') ''_like''
   \<and> \<not> includes_js (''d'' @ ''_date_to'') ''_date_from''
   \<and> \<not> includes_js ''d'' ''_date_to''
   \<and> clauseOf (''d'' @ ''_date_to'') = ''d'' @ '' <= ?''
   \<and> \<not> includes_js ''k'' ''_like'' \<and> \<not> includes_js ''k'' ''_date_from''
   \<and> \<not> includes_js ''k'' ''_date_to''
   \<and> clauseOf ''k'' = ''k'' @ '' = ?''"
  using buildSearchQuery_markers [of "''SELECT * FROM t WHERE a = ?''"
      "[(''name_like'', Str ''bo''), (''x'', Null), (''d_date_from'', Str ''2020''),
       (''d_date_to'', Num 5), (''k'', Bool True), (''e'', Str ''''), (''u'', Undefined)]"
      "[Num 1]" "''d''" "Null" "''k''"]
  by (simp add: liveFilter_def clauseOf_def paramOf_def startsWith_def)

section \<open>Properties of generateNextTransactionId\<close>

lemma is_digit_cases:
  "is_digit c \<longleftrightarrow> c = CHR ''0'' \<or> c = CHR ''1'' \<or> c = CHR ''2'' \<or> c = CHR ''3'' \<or> c = CHR ''4''
     \<or> c = CHR ''5'' \<or> c = CHR ''6'' \<or> c = CHR ''7'' \<or> c = CHR ''8'' \<or> c = CHR ''9''"
  by (simp add: is_digit_def)

lemma digit_char_ok: "d < 10 \<Longrightarrow> is_digit (digit_char d) \<and> digit_val (digit_char d) = d"
proof -
  assume "d < 10"
  then have "d = 0 \<or> d = 1 \<or> d = 2 \<or> d = 3 \<or> d = 4 \<or> d = 5 \<or> d = 6 \<or> d = 7 \<or> d = 8 \<or> d = 9"
    by arith
  then show ?thesis
    by (elim disjE) (simp_all add: digit_char_def is_digit_def digit_val_def)
qed

lemma dec_val_snoc: "dec_val (xs @ [c]) = 10 * dec_val xs + digit_val c"
  by (simp add: dec_val_def)

lemma show_nat_digits: "list_all is_digit (show_nat n)"
proof (induction n rule: show_nat.induct)
  case (1 n)
  show ?case
  proof (cases "n < 10")
    case True
    then show ?thesis by (subst show_nat.simps) (simp add: digit_char_ok)
  next
    case False
    with 1 have "list_all is_digit (show_nat (n div 10))" by simp
    moreover have "is_digit (digit_char (n mod 10))" by (simp add: digit_char_ok)
    ultimately show ?thesis using False by (subst show_nat.simps) simp
  qed
qed

lemma dec_val_show_nat: "dec_val (show_nat n) = n"
proof (induction n rule: show_nat.induct)
  case (1 n)
  show ?case
  proof (cases "n < 10")
    case True
    then show ?thesis by (subst show_nat.simps) (simp add: digit_char_ok dec_val_def)
  next
    case False
    with 1 have "dec_val (show_nat (n div 10)) = n div 10" by simp
    moreover have "digit_val (digit_char (n mod 10)) = n mod 10" by (simp add: digit_char_ok)
    ultimately show ?thesis using False
      by (subst show_nat.simps) (simp add: dec_val_snoc)
  qed
qed

lemma show_nat_nonempty: "show_nat n \<noteq> []"
  by (subst show_nat.simps) simp

lemma dec_val_zeros: "dec_val (replicate k CHR ''0'' @ s) = dec_val s"
proof -
  have "foldl (\<lambda>a c. 10 * a + digit_val c) 0 (replicate k CHR ''0'') = 0"
    by (induction k) (simp_all add: digit_val_def)
  then show ?thesis by (simp add: dec_val_def)
qed

lemma split_js_none: "c \<notin> set s \<Longrightarrow> split_js c s = [s]"
  by (induction s) auto

lemma digits_no_dash: "list_all is_digit ds \<Longrightarrow> CHR ''-'' \<notin> set ds"
proof
  assume all: "list_all is_digit ds" and mem: "CHR ''-'' \<in> set ds"
  from all mem have "is_digit CHR ''-''" by (simp add: list_all_iff)
  then show False by (simp add: is_digit_def)
qed

lemma secondPart_txn:
  assumes "list_all is_digit ds"
  shows "secondPart (''txn-'' @ ds) = ds"
  using split_js_none [OF digits_no_dash [OF assms]]
  by (simp add: secondPart_def)

lemma parseInt_digits:
  assumes ne: "ds \<noteq> []" and dg: "list_all is_digit ds"
  shows "parseInt ds = Finite (int (dec_val ds))"
proof -
  from ne obtain d rest where ds: "ds = d # rest" by (cases ds) auto
  with dg have d: "is_digit d" and r: "list_all is_digit rest" by simp_all
  from d have nsp: "\<not> is_space d" and nsg: "d \<noteq> CHR ''-''" "d \<noteq> CHR ''+''"
    by (auto simp: is_digit_def is_space_def)
  have nx: "\<And>e. is_digit e \<Longrightarrow> e \<noteq> CHR ''x'' \<and> e \<noteq> CHR ''X''"
    by (auto simp: is_digit_def)
  have nhex: "\<not> startsWith ds ''0x'' \<and> \<not> startsWith ds ''0X''"
  proof (cases rest)
    case Nil
    with ds show ?thesis by (simp add: startsWith_def)
  next
    case (Cons e rest')
    with r have "is_digit e" by simp
    from nx [OF this] ds Cons show ?thesis by (simp add: startsWith_def)
  qed
  have tw: "takeWhile is_digit ds = ds"
    using dg by (simp add: takeWhile_eq_all_conv list_all_iff)
  have dw: "dropWhile is_space ds = ds"
    using ds nsp by simp
  have h: "hd ds \<noteq> CHR ''-''" "hd ds \<noteq> CHR ''+''"
    using ds nsg by simp_all
  show ?thesis
    unfolding parseInt_def dw Let_def
    using nhex ne h by (simp add: tw)
qed

lemma startsWith_txn: "likeTxn ident \<Longrightarrow> ident = ''txn-'' @ drop 4 ident"
proof -
  assume "likeTxn ident"
  then have B: "take (length ''txn-'') ident = ''txn-''"
    unfolding likeTxn_def startsWith_def .
  have len: "length ''txn-'' = (4::nat)" by simp
  from B have C: "take 4 ident = ''txn-''" unfolding len .
  have "take 4 ident @ drop 4 ident = ident" by (rule append_take_drop_id)
  then show ?thesis unfolding C by (rule sym)
qed

lemma maxBy_mem: "maxBy f b xs \<in> set (b # xs)"
  by (induction xs arbitrary: b) (auto split: if_splits)

lemma maxBy_key: "f (maxBy f b xs) = Max (f ` set (b # xs))"
proof (induction xs arbitrary: b)
  case Nil
  show ?case by simp
next
  case (Cons x xs)
  have "f (maxBy f b (x # xs)) = Max (f ` set ((if f b < f x then x else b) # xs))"
    using Cons.IH by simp
  also have "\<dots> = Max (f ` set (b # x # xs))"
  proof (cases "xs = []")
    case True
    then show ?thesis by (simp add: max_def)
  next
    case False
    let ?M = "Max (f ` set xs)"
    from False have fin: "finite (f ` set xs)" and ne: "f ` set xs \<noteq> {}" by simp_all
    have L: "Max (f ` set (y # xs)) = max (f y) ?M" for y
      using Max_insert [OF fin ne, of "f y"] by simp
    have "Max (f ` set (b # x # xs)) = Max (insert (f b) (f ` set (x # xs)))" by simp
    also have "\<dots> = max (f b) (Max (f ` set (x # xs)))"
      by (rule Max_insert) simp_all
    finally have R: "Max (f ` set (b # x # xs)) = max (f b) (max (f x) ?M)"
      by (simp only: L)
    show ?thesis
      unfolding L R by (cases "f b < f x") (simp_all add: max_def)
  qed
  finally show ?case .
qed

lemma suffixKey_sequential:
  assumes "sequentialId ident"
  shows "suffixKey ident = idNumber ident"
proof -
  from assms have dg: "list_all is_digit (drop 4 ident)" and lt: "dec_val (drop 4 ident) < 2 ^ 53"
    by (simp_all add: sequentialId_def)
  from dg have tw: "takeWhile is_digit (drop 4 ident) = drop 4 ident"
    by (simp add: takeWhile_eq_all_conv list_all_iff)
  have "(2::nat) ^ 53 \<le> 2 ^ 64 - 1" by simp
  with lt have "dec_val (drop 4 ident) \<le> 2 ^ 64 - 1" by linarith
  then show ?thesis
    unfolding suffixKey_def castUnsigned_def idNumber_def tw by (simp add: min_def)
qed

lemma next_of_sequential:
  assumes lk: "likeTxn ident" and sq: "sequentialId ident"
  shows "numberToString (addOne (parseInt (secondPart ident))) = show_nat (Suc (idNumber ident))"
proof -
  let ?ds = "drop 4 ident"
  from sq have ne: "?ds \<noteq> []" and dg: "list_all is_digit ?ds"
    by (simp_all add: sequentialId_def)
  from startsWith_txn [OF lk] have "secondPart ident = secondPart (''txn-'' @ ?ds)" by simp
  also have "\<dots> = ?ds" by (rule secondPart_txn [OF dg])
  finally have sp: "secondPart ident = ?ds" .
  have "nat (int (dec_val ?ds) + 1) = Suc (dec_val ?ds)" by simp
  then show ?thesis
    unfolding sp parseInt_digits [OF ne dg] idNumber_def
    by (simp add: show_int_def)
qed

lemma padStart_digits:
  "list_all is_digit (padStart 3 CHR ''0'' (show_nat n))
   \<and> 3 \<le> length (padStart 3 CHR ''0'' (show_nat n))
   \<and> dec_val (padStart 3 CHR ''0'' (show_nat n)) = n"
proof -
  have z: "is_digit CHR ''0''" by (simp add: is_digit_def)
  have "list_all is_digit (replicate k CHR ''0'')" for k
    using z by (simp add: list_all_iff)
  then show ?thesis
    using show_nat_digits [of n]
    by (simp add: padStart_def dec_val_zeros dec_val_show_nat)
qed

lemma show_nat_examples: "show_nat 46 = ''46''" "show_nat 1000 = ''1000''" "show_nat 11 = ''11''"
  by (simp_all add: show_nat.simps digit_char_def)

lemma gen_nonempty:
  assumes wf: "\<forall>ident \<in> set idColumn. likeTxn ident \<longrightarrow> sequentialId ident"
    and ne: "filter likeTxn idColumn \<noteq> []"
  shows "generateNextTransactionId idColumn =
           ''txn-'' @ padStart 3 CHR ''0''
              (show_nat (Suc (Max (idNumber ` set (filter likeTxn idColumn)))))"
proof -
  from ne obtain x xs where f: "filter likeTxn idColumn = x # xs"
    by (cases "filter likeTxn idColumn") auto
  let ?last = "maxBy suffixKey x xs"
  have mem: "?last \<in> set (filter likeTxn idColumn)"
    unfolding f by (rule maxBy_mem)
  then have lk: "likeTxn ?last" and sq: "sequentialId ?last"
    using wf by auto
  have allsq: "sequentialId i" if "i \<in> set (x # xs)" for i
  proof -
    from that have "i \<in> set (filter likeTxn idColumn)" by (simp only: f)
    then have "i \<in> set idColumn \<and> likeTxn i" by simp
    with wf show ?thesis by blast
  qed
  have "idNumber ?last = suffixKey ?last" by (simp add: suffixKey_sequential [OF sq])
  also have "\<dots> = Max (suffixKey ` set (x # xs))" by (rule maxBy_key)
  also have "suffixKey ` set (x # xs) = idNumber ` set (x # xs)"
    by (rule image_cong [OF refl]) (simp add: suffixKey_sequential [OF allsq])
  finally have key: "idNumber ?last = Max (idNumber ` set (filter likeTxn idColumn))"
    unfolding f .
  have "generateNextTransactionId idColumn =
          ''txn-'' @ padStart 3 CHR ''0'' (numberToString (addOne (parseInt (secondPart ?last))))"
    by (simp add: generateNextTransactionId_def selectLastTransactionId_def f)
  then show ?thesis
    unfolding next_of_sequential [OF lk sq] key .
qed

text \<open>
  C1. When no id of the transactions table begins with \<open>txn-\<close>,
  \<open>generateNextTransactionId\<close> returns \<open>txn-001\<close>. Otherwise, the ids with that
  prefix being of the sequential format, it takes the greatest number among them,
  compared as numbers, and returns \<open>txn-\<close> followed by that number plus one,
  padded with zeros to at least three digits: the result's digits read back as the
  maximum plus one; a maximum of 45 gives \<open>txn-046\<close> and a maximum of 999 gives
  \<open>txn-1000\<close>.
\<close>

theorem generateNextTransactionId_sequential:
  "(\<forall>ident \<in> set idColumn. likeTxn ident \<longrightarrow> sequentialId ident) \<Longrightarrow>
     (filter likeTxn idColumn = [] \<longrightarrow> generateNextTransactionId idColumn = ''txn-001'')
   \<and> (filter likeTxn idColumn \<noteq> [] \<longrightarrow>
        (let m = Max (idNumber ` set (filter likeTxn idColumn));
             r = generateNextTransactionId idColumn
         in r = ''txn-'' @ padStart 3 CHR ''0'' (show_nat (m + 1))
            \<and> list_all is_digit (drop 4 r) \<and> 3 \<le> length (drop 4 r) \<and> dec_val (drop 4 r) = m + 1
            \<and> (m = 45 \<longrightarrow> r = ''txn-046'') \<and> (m = 999 \<longrightarrow> r = ''txn-1000'')))"
proof -
  assume wf: "\<forall>ident \<in> set idColumn. likeTxn ident \<longrightarrow> sequentialId ident"
  have empty: "filter likeTxn idColumn = [] \<longrightarrow> generateNextTransactionId idColumn = ''txn-001''"
    by (simp add: generateNextTransactionId_def selectLastTransactionId_def)
  have rest: "filter likeTxn idColumn \<noteq> [] \<longrightarrow>
        (let m = Max (idNumber ` set (filter likeTxn idColumn));
             r = generateNextTransactionId idColumn
         in r = ''txn-'' @ padStart 3 CHR ''0'' (show_nat (m + 1))
            \<and> list_all is_digit (drop 4 r) \<and> 3 \<le> length (drop 4 r) \<and> dec_val (drop 4 r) = m + 1
            \<and> (m = 45 \<longrightarrow> r = ''txn-046'') \<and> (m = 999 \<longrightarrow> r = ''txn-1000''))"
  proof
    assume ne: "filter likeTxn idColumn \<noteq> []"
    let ?m = "Max (idNumber ` set (filter likeTxn idColumn))"
    let ?p = "padStart 3 CHR ''0'' (show_nat (Suc ?m))"
    have r: "generateNextTransactionId idColumn = ''txn-'' @ ?p"
      by (rule gen_nonempty [OF wf ne])
    have d: "drop 4 (''txn-'' @ ?p) = ?p" by simp
    have e1: "?m = 45 \<longrightarrow> ''txn-'' @ ?p = ''txn-046''"
      using show_nat_examples(1) by (simp add: padStart_def)
    have e2: "?m = 999 \<longrightarrow> ''txn-'' @ ?p = ''txn-1000''"
      using show_nat_examples(2) by (simp add: padStart_def)
    show "let m = ?m; r = generateNextTransactionId idColumn
         in r = ''txn-'' @ padStart 3 CHR ''0'' (show_nat (m + 1))
            \<and> list_all is_digit (drop 4 r) \<and> 3 \<le> length (drop 4 r) \<and> dec_val (drop 4 r) = m + 1
            \<and> (m = 45 \<longrightarrow> r = ''txn-046'') \<and> (m = 999 \<longrightarrow> r = ''txn-1000'')"
      unfolding Let_def r d
      using padStart_digits [of "Suc ?m"] e1 e2 by simp
  qed
  from empty rest show ?thesis by (rule conjI)
qed


lemma txn_table_facts:
  "likeTxn ''txn-9''" "likeTxn ''txn-10''" "likeTxn ''txn-045''" "likeTxn ''txn-999''"
  "\<not> likeTxn ''cat-food-1''"
  by (simp_all add: likeTxn_def startsWith_def)

lemma txn_table_numbers:
  "idNumber ''txn-9'' = 9" "idNumber ''txn-10'' = 10" "idNumber ''txn-045'' = 45"
  "idNumber ''txn-999'' = 999"
  by (simp_all add: idNumber_def dec_val_def digit_val_def)

lemma txn_digit_chars:
  "is_digit CHR ''0''" "is_digit CHR ''1''" "is_digit CHR ''4''" "is_digit CHR ''5''"
  "is_digit CHR ''9''"
  by (simp_all add: is_digit_def)

lemma txn_table_sequential:
  "sequentialId ''txn-9''" "sequentialId ''txn-10''" "sequentialId ''txn-045''"
  "sequentialId ''txn-999''"
  using txn_table_numbers
  by (simp_all add: sequentialId_def txn_digit_chars idNumber_def)

text \<open>
  The hypotheses of C1 hold of tables such as \<open>[txn-9, cat-food-1, txn-10]\<close>, where
  the numeric order (10 above 9) and not the lexical one decides.
\<close>

theorem generateNextTransactionId_sequential_witness:
  "list_all sequentialId (filter likeTxn [''txn-9'', ''cat-food-1'', ''txn-10''])
   \<and> filter likeTxn [''txn-9'', ''cat-food-1'', ''txn-10''] \<noteq> []
   \<and> generateNextTransactionId [''txn-9'', ''cat-food-1'', ''txn-10''] = ''txn-011''
   \<and> list_all sequentialId (filter likeTxn [''txn-045''])
   \<and> generateNextTransactionId [''txn-045''] = ''txn-046''
   \<and> list_all sequentialId (filter likeTxn [''txn-999'', ''txn-045''])
   \<and> generateNextTransactionId [''txn-999'', ''txn-045''] = ''txn-1000''
   \<and> filter likeTxn [''cat-food-1''] = []
   \<and> generateNextTransactionId [''cat-food-1''] = ''txn-001''"
proof -
  note facts = txn_table_facts txn_table_sequential
  have w1: "\<forall>ident \<in> set [''txn-9'', ''cat-food-1'', ''txn-10'']. likeTxn ident \<longrightarrow> sequentialId ident"
    by (simp add: facts)
  have w2: "\<forall>ident \<in> set [''txn-045'']. likeTxn ident \<longrightarrow> sequentialId ident"
    by (simp add: facts)
  have w3: "\<forall>ident \<in> set [''txn-999'', ''txn-045'']. likeTxn ident \<longrightarrow> sequentialId ident"
    by (simp add: facts)
  have w4: "\<forall>ident \<in> set [''cat-food-1'']. likeTxn ident \<longrightarrow> sequentialId ident"
    by (simp add: facts)
  have f1: "filter likeTxn [''txn-9'', ''cat-food-1'', ''txn-10''] = [''txn-9'', ''txn-10'']"
    by (simp add: facts)
  have f2: "filter likeTxn [''txn-045''] = [''txn-045'']"
    by (simp add: facts)
  have f3: "filter likeTxn [''txn-999'', ''txn-045''] = [''txn-999'', ''txn-045'']"
    by (simp add: facts)
  have f4: "filter likeTxn [''cat-food-1''] = []"
    by (simp add: facts)
  from generateNextTransactionId_sequential [OF w1]
  have r1: "generateNextTransactionId [''txn-9'', ''cat-food-1'', ''txn-10''] = ''txn-011''"
    unfolding f1 by (simp add: Let_def padStart_def txn_table_numbers show_nat_examples)
  from generateNextTransactionId_sequential [OF w2]
  have r2: "generateNextTransactionId [''txn-045''] = ''txn-046''"
    unfolding f2 by (simp add: Let_def padStart_def txn_table_numbers show_nat_examples)
  from generateNextTransactionId_sequential [OF w3]
  have r3: "generateNextTransactionId [''txn-999'', ''txn-045''] = ''txn-1000''"
    unfolding f3 by (simp add: Let_def padStart_def txn_table_numbers show_nat_examples)
  from generateNextTransactionId_sequential [OF w4]
  have r4: "generateNextTransactionId [''cat-food-1''] = ''txn-001''"
    unfolding f4 by simp
  have n1: "filter likeTxn [''txn-9'', ''cat-food-1'', ''txn-10''] \<noteq> []"
    unfolding f1 by simp
  have l1: "list_all sequentialId (filter likeTxn [''txn-9'', ''cat-food-1'', ''txn-10''])"
    unfolding f1 by (simp add: facts)
  have l2: "list_all sequentialId (filter likeTxn [''txn-045''])"
    unfolding f2 by (simp add: facts)
  have l3: "list_all sequentialId (filter likeTxn [''txn-999'', ''txn-045''])"
    unfolding f3 by (simp add: facts)
  from l1 n1 r1 l2 r2 l3 r3 f4 r4 show ?thesis by (intro conjI)
qed

section \<open>Properties of the authentication middleware\<close>

lemma selectActiveUser_set:
  "set (selectActiveUser db userId) =
     {(u, p). u \<in> set (users db) \<and> p \<in> set (profiles db)
              \<and> u_id u = userId \<and> p_id p = userId \<and> p_status p}"
  by (auto simp: selectActiveUser_def)

lemma selectActiveUser_empty:
  "selectActiveUser db userId = [] \<longleftrightarrow>
     \<not> (\<exists>u \<in> set (users db). \<exists>p \<in> set (profiles db).
           u_id u = userId \<and> p_id p = userId \<and> p_status p)"
proof -
  have "selectActiveUser db userId = [] \<longleftrightarrow> set (selectActiveUser db userId) = {}"
    by simp
  also have "\<dots> \<longleftrightarrow> \<not> (\<exists>u \<in> set (users db). \<exists>p \<in> set (profiles db).
           u_id u = userId \<and> p_id p = userId \<and> p_status p)"
    unfolding selectActiveUser_set by auto
  finally show ?thesis .
qed

lemma verifyTokenTry_bearer:
  "token \<noteq> [] \<Longrightarrow>
   verifyTokenTry jwtVerify db (Some (''Bearer '' @ token)) =
     (case jwtVerify token of
        JwtThrows n \<Rightarrow> Inl (LibErr n)
      | Decoded userId \<Rightarrow>
          (case selectActiveUser db userId of
             [] \<Rightarrow> Inl (AppErr (AppError ''User not found or inactive.'' 401 ''USER_NOT_FOUND''))
           | (u, p) # _ \<Rightarrow>
               Inr \<lparr> user_id = u_id u, user_email = u_email u,
                     user_name = p_name p, user_role = p_role p \<rparr>))"
  by (simp add: verifyTokenTry_def Let_def startsWith_def)

lemma verifyToken_no_token:
  "authHeader = None \<or> (\<exists>h. authHeader = Some h \<and> (\<not> startsWith h ''Bearer '' \<or> drop 7 h = []))
   \<Longrightarrow> verifyToken jwtVerify db authHeader =
         Inl (AppErr (AppError ''Access denied. No token provided.'' 401 ''NO_TOKEN''))"
  by (auto simp: verifyToken_def verifyTokenTry_def Let_def)

text \<open>
  C4. The authentication middleware rejects with status 401 and the code of the step, in
  this order: a missing Authorization header, one that does not begin with \<open>Bearer \<close>
  or one with nothing behind it gives \<open>NO_TOKEN\<close>, whatever the token or the
  database; a token for which the verification throws \<open>JsonWebTokenError\<close> (bad
  signature or format) gives \<open>INVALID_TOKEN\<close>; one for which it throws
  \<open>TokenExpiredError\<close> gives \<open>TOKEN_EXPIRED\<close>; a valid token whose \<open>userId\<close> has
  no user row joined to a profile row of active status gives \<open>USER_NOT_FOUND\<close>;
  otherwise the identity (id, email, name, role) of the first joined row is attached to
  the request and the handler runs.
\<close>

theorem verifyToken_steps:
  "((authHeader = None \<or> (\<exists>h. authHeader = Some h \<and> (\<not> startsWith h ''Bearer '' \<or> drop 7 h = [])))
      \<longrightarrow> verifyToken jwtVerify db authHeader =
            Inl (AppErr (AppError ''Access denied. No token provided.'' 401 ''NO_TOKEN'')))
   \<and> (authHeader = Some (''Bearer '' @ token) \<and> token \<noteq> [] \<longrightarrow>
        (jwtVerify token = JwtThrows ''JsonWebTokenError'' \<longrightarrow>
           verifyToken jwtVerify db authHeader =
             Inl (AppErr (AppError ''Invalid token.'' 401 ''INVALID_TOKEN'')))
      \<and> (jwtVerify token = JwtThrows ''TokenExpiredError'' \<longrightarrow>
           verifyToken jwtVerify db authHeader =
             Inl (AppErr (AppError ''Token expired.'' 401 ''TOKEN_EXPIRED'')))
      \<and> (\<forall>userId. jwtVerify token = Decoded userId \<longrightarrow>
            (selectActiveUser db userId = [] \<longleftrightarrow>
               \<not> (\<exists>u \<in> set (users db). \<exists>p \<in> set (profiles db).
                     u_id u = userId \<and> p_id p = userId \<and> p_status p))
          \<and> (selectActiveUser db userId = [] \<longrightarrow>
               verifyToken jwtVerify db authHeader =
                 Inl (AppErr (AppError ''User not found or inactive.'' 401 ''USER_NOT_FOUND'')))
          \<and> (\<forall>u p rest. selectActiveUser db userId = (u, p) # rest \<longrightarrow>
               verifyToken jwtVerify db authHeader =
                 Inr \<lparr> user_id = u_id u, user_email = u_email u,
                       user_name = p_name p, user_role = p_role p \<rparr>)))"
proof (intro conjI impI allI)
  assume "authHeader = None \<or> (\<exists>h. authHeader = Some h \<and> (\<not> startsWith h ''Bearer '' \<or> drop 7 h = []))"
  then show "verifyToken jwtVerify db authHeader =
      Inl (AppErr (AppError ''Access denied. No token provided.'' 401 ''NO_TOKEN''))"
    by (rule verifyToken_no_token)
next
  assume "authHeader = Some (''Bearer '' @ token) \<and> token \<noteq> []"
    and "jwtVerify token = JwtThrows ''JsonWebTokenError''"
  then show "verifyToken jwtVerify db authHeader =
      Inl (AppErr (AppError ''Invalid token.'' 401 ''INVALID_TOKEN''))"
    using verifyTokenTry_bearer [of token jwtVerify db] by (simp add: verifyToken_def)
next
  assume "authHeader = Some (''Bearer '' @ token) \<and> token \<noteq> []"
    and "jwtVerify token = JwtThrows ''TokenExpiredError''"
  then show "verifyToken jwtVerify db authHeader =
      Inl (AppErr (AppError ''Token expired.'' 401 ''TOKEN_EXPIRED''))"
    using verifyTokenTry_bearer [of token jwtVerify db] by (simp add: verifyToken_def)
next
  fix userId
  show "selectActiveUser db userId = [] \<longleftrightarrow>
     \<not> (\<exists>u \<in> set (users db). \<exists>p \<in> set (profiles db).
           u_id u = userId \<and> p_id p = userId \<and> p_status p)"
    by (rule selectActiveUser_empty)
next
  fix userId
  assume "authHeader = Some (''Bearer '' @ token) \<and> token \<noteq> []"
    and "jwtVerify token = Decoded userId" and "selectActiveUser db userId = []"
  then show "verifyToken jwtVerify db authHeader =
      Inl (AppErr (AppError ''User not found or inactive.'' 401 ''USER_NOT_FOUND''))"
    using verifyTokenTry_bearer [of token jwtVerify db] by (simp add: verifyToken_def)
next
  fix userId u p rest
  assume "authHeader = Some (''Bearer '' @ token) \<and> token \<noteq> []"
    and "jwtVerify token = Decoded userId" and "selectActiveUser db userId = (u, p) # rest"
  then show "verifyToken jwtVerify db authHeader =
      Inr \<lparr> user_id = u_id u, user_email = u_email u, user_name = p_name p, user_role = p_role p \<rparr>"
    using verifyTokenTry_bearer [of token jwtVerify db] by (simp add: verifyToken_def)
qed

lemma example_ids_distinct:
  "adminId \<noteq> managerId" "managerId \<noteq> adminId"
  "adminId \<noteq> ''eeeeeeee-eeee-4eee-8eee-eeeeeeeeeeee''"
  "managerId \<noteq> ''eeeeeeee-eeee-4eee-8eee-eeeeeeeeeeee''"
  by (simp_all add: adminId_def managerId_def)

lemma example_active_users:
  "selectActiveUser exampleDb adminId =
     [(\<lparr> u_id = adminId, u_email = ''ana@example.org'', u_password_hash = ''$2b$12$hashA'' \<rparr>,
       \<lparr> p_id = adminId, p_name = ''Ana'', p_email = ''ana@example.org'',
         p_role = ''administrador'', p_status = True, p_last_login = None \<rparr>)]"
  "selectActiveUser exampleDb managerId = []"
  "selectActiveUser exampleDb ''eeeeeeee-eeee-4eee-8eee-eeeeeeeeeeee'' = []"
  using example_ids_distinct by (simp_all add: selectActiveUser_def exampleDb_def)

lemma example_tokens:
  "exampleJwtVerify ''good'' = Decoded adminId"
  "exampleJwtVerify ''inactive'' = Decoded managerId"
  "exampleJwtVerify ''ghost'' = Decoded ''eeeeeeee-eeee-4eee-8eee-eeeeeeeeeeee''"
  "exampleJwtVerify ''expired'' = JwtThrows ''TokenExpiredError''"
  "exampleJwtVerify ''garbage'' = JwtThrows ''JsonWebTokenError''"
  by (simp_all add: exampleJwtVerify_def)

text \<open>C4 on the example database, one request for each step.\<close>

theorem verifyToken_steps_witness:
  "verifyToken exampleJwtVerify exampleDb None
     = Inl (AppErr (AppError ''Access denied. No token provided.'' 401 ''NO_TOKEN''))
   \<and> verifyToken exampleJwtVerify exampleDb (Some ''Basic good'')
     = Inl (AppErr (AppError ''Access denied. No token provided.'' 401 ''NO_TOKEN''))
   \<and> verifyToken exampleJwtVerify exampleDb (Some ''Bearer garbage'')
     = Inl (AppErr (AppError ''Invalid token.'' 401 ''INVALID_TOKEN''))
   \<and> verifyToken exampleJwtVerify exampleDb (Some ''Bearer expired'')
     = Inl (AppErr (AppError ''Token expired.'' 401 ''TOKEN_EXPIRED''))
   \<and> verifyToken exampleJwtVerify exampleDb (Some ''Bearer ghost'')
     = Inl (AppErr (AppError ''User not found or inactive.'' 401 ''USER_NOT_FOUND''))
   \<and> verifyToken exampleJwtVerify exampleDb (Some ''Bearer inactive'')
     = Inl (AppErr (AppError ''User not found or inactive.'' 401 ''USER_NOT_FOUND''))
   \<and> verifyToken exampleJwtVerify exampleDb (Some ''Bearer good'') = Inr exampleAdmin"
proof -
  note ex = example_tokens example_active_users
  have "verifyToken exampleJwtVerify exampleDb None
          = Inl (AppErr (AppError ''Access denied. No token provided.'' 401 ''NO_TOKEN''))"
    using verifyToken_steps [of None exampleJwtVerify exampleDb "''x''"] by simp
  moreover have "verifyToken exampleJwtVerify exampleDb (Some ''Basic good'')
          = Inl (AppErr (AppError ''Access denied. No token provided.'' 401 ''NO_TOKEN''))"
    using verifyToken_steps [of "Some ''Basic good''" exampleJwtVerify exampleDb "''x''"]
    by (simp add: startsWith_def)
  moreover have "verifyToken exampleJwtVerify exampleDb (Some ''Bearer garbage'')
          = Inl (AppErr (AppError ''Invalid token.'' 401 ''INVALID_TOKEN''))"
    using verifyToken_steps [of "Some ''Bearer garbage''" exampleJwtVerify exampleDb "''garbage''"]
    by (simp add: ex)
  moreover have "verifyToken exampleJwtVerify exampleDb (Some ''Bearer expired'')
          = Inl (AppErr (AppError ''Token expired.'' 401 ''TOKEN_EXPIRED''))"
    using verifyToken_steps [of "Some ''Bearer expired''" exampleJwtVerify exampleDb "''expired''"]
    by (simp add: ex)
  moreover have "verifyToken exampleJwtVerify exampleDb (Some ''Bearer ghost'')
          = Inl (AppErr (AppError ''User not found or inactive.'' 401 ''USER_NOT_FOUND''))"
    using verifyToken_steps [of "Some ''Bearer ghost''" exampleJwtVerify exampleDb "''ghost''"]
    by (simp add: ex)
  moreover have "verifyToken exampleJwtVerify exampleDb (Some ''Bearer inactive'')
          = Inl (AppErr (AppError ''User not found or inactive.'' 401 ''USER_NOT_FOUND''))"
    using verifyToken_steps [of "Some ''Bearer inactive''" exampleJwtVerify exampleDb "''inactive''"]
    by (simp add: ex)
  moreover have "verifyToken exampleJwtVerify exampleDb (Some ''Bearer good'') = Inr exampleAdmin"
    using verifyToken_steps [of "Some ''Bearer good''" exampleJwtVerify exampleDb "''good''"]
    by (simp add: ex exampleAdmin_def)
  ultimately show ?thesis by (intro conjI)
qed

section \<open>Properties of the deletion guards\<close>


lemma count_zero: "length (filter P xs) = 0 \<longleftrightarrow> \<not> (\<exists>x \<in> set xs. P x)"
  by (induction xs) auto






lemma example_uuids:
  "isUUID adminId" "isUUID managerId" "isUUID catWithSub" "isUUID catInUse" "isUUID catFree"
  "isUUID subInUse" "isUUID subFree" "\<not> isUUID ''cat-food-1''"
  by (simp_all add: isUUID_def is_hex_def adminId_def managerId_def catWithSub_def catInUse_def
        catFree_def subInUse_def subFree_def)


lemma example_gate: "requireAdminOrManager (Some exampleAdmin) = Inr exampleAdmin"
  by (simp add: requireAdminOrManager_def exampleAdmin_def)


section \<open>Properties of the admin user routes\<close>

lemma verifyToken_Inr:
  assumes "verifyToken jwtVerify db authHeader = Inr u"
  shows "\<exists>userId usr p. (usr, p) \<in> set (selectActiveUser db userId) \<and> user_id u = u_id usr"
proof -
  from assms have tr: "verifyTokenTry jwtVerify db authHeader = Inr u"
    by (auto simp: verifyToken_def split: sum.splits if_splits)
  from tr obtain h where h: "authHeader = Some h"
    by (cases authHeader) (simp_all add: verifyTokenTry_def)
  from tr h obtain userId where dec: "jwtVerify (drop 7 h) = Decoded userId"
    by (cases "jwtVerify (drop 7 h)") (simp_all add: verifyTokenTry_def Let_def split: if_splits)
  from tr h dec obtain usr p rest where sel: "selectActiveUser db userId = (usr, p) # rest"
    and u: "u = \<lparr> user_id = u_id usr, user_email = u_email usr,
                  user_name = p_name p, user_role = p_role p \<rparr>"
    by (cases "selectActiveUser db userId")
       (auto simp: verifyTokenTry_def Let_def split: if_splits)
  from sel have "(usr, p) \<in> set (selectActiveUser db userId)" by simp
  moreover from u have "user_id u = u_id usr" by simp
  ultimately show ?thesis by blast
qed

lemma authenticated_rows:
  assumes "verifyToken jwtVerify db authHeader = Inr u"
  shows "(\<exists>usr \<in> set (users db). u_id usr = user_id u)
       \<and> (\<exists>p \<in> set (profiles db). p_id p = user_id u)"
proof -
  from verifyToken_Inr [OF assms] obtain userId usr p
    where mem: "(usr, p) \<in> set (selectActiveUser db userId)" and uid: "user_id u = u_id usr"
    by blast
  from mem have "usr \<in> set (users db)" "p \<in> set (profiles db)" "u_id usr = userId" "p_id p = userId"
    unfolding selectActiveUser_set by simp_all
  with uid show ?thesis by auto
qed

lemma deleteUser_self:
  assumes "\<exists>p \<in> set (profiles db). p_id p = user_id u"
  shows "deleteUser db u (user_id u) =
           (Inl (AppError ''Cannot delete your own account'' 400 ''CANNOT_DELETE_SELF''), db)"
proof -
  from assms have "filter (\<lambda>p. p_id p = user_id u) (profiles db) \<noteq> []"
    by (simp add: filter_empty_conv)
  then obtain e es where "filter (\<lambda>p. p_id p = user_id u) (profiles db) = e # es"
    by (cases "filter (\<lambda>p. p_id p = user_id u) (profiles db)") auto
  then show ?thesis by (simp add: deleteUser_def)
qed

lemma deactivateUser_self:
  assumes "\<exists>p \<in> set (profiles db). p_id p = user_id u"
  shows "deactivateUser db u (user_id u) =
           (Inl (AppError ''Cannot deactivate your own account'' 400 ''CANNOT_DEACTIVATE_SELF''), db)"
  using assms unfolding deactivateUser_def Let_def count_zero by simp

lemma resetPassword_self:
  assumes "\<exists>usr \<in> set (users db). u_id usr = user_id u"
  shows "resetPassword bcryptHash db u (user_id u) newPassword =
           (if truthy newPassword \<and> isString newPassword \<and> 8 \<le> strLength newPassword
            then Inl (AppError ''Use change-password endpoint to update your own password'' 400
                        ''CANNOT_RESET_OWN_PASSWORD'')
            else Inl (AppError ''New password must be at least 8 characters long'' 400
                        ''INVALID_PASSWORD''), db)"
  using assms unfolding resetPassword_def Let_def count_zero by auto

text \<open>
  C6, as the specification states it, fails for the password reset: the handler checks
  the new password first, so an administrator who resets the own password with a new
  password shorter than 8 characters is answered \<open>INVALID_PASSWORD\<close>, not
  \<open>CANNOT_RESET_OWN_PASSWORD\<close>.
\<close>

theorem self_reset_counterexample:
  "verifyToken exampleJwtVerify exampleDb (Some ''Bearer good'') = Inr exampleAdmin
   \<and> requireAdmin (Some exampleAdmin) = Inr exampleAdmin
   \<and> isUUID (user_id exampleAdmin)
   \<and> resetPasswordRoute (\<lambda>pw. ''$2b$12$new'') exampleDb (Some exampleAdmin) (user_id exampleAdmin)
        (Str ''short'')
       = (Inl (AppError ''New password must be at least 8 characters long'' 400
                 ''INVALID_PASSWORD''), exampleDb)"
proof -
  have a: "verifyToken exampleJwtVerify exampleDb (Some ''Bearer good'') = Inr exampleAdmin"
    using verifyTokenTry_bearer [of "''good''" exampleJwtVerify exampleDb]
    by (simp add: verifyToken_def example_tokens example_active_users exampleAdmin_def)
  have b: "requireAdmin (Some exampleAdmin) = Inr exampleAdmin"
    by (simp add: requireAdmin_def exampleAdmin_def)
  have c: "isUUID (user_id exampleAdmin)"
    using example_uuids(1) by (simp add: exampleAdmin_def)
  have d: "resetPasswordRoute (\<lambda>pw. ''$2b$12$new'') exampleDb (Some exampleAdmin)
             (user_id exampleAdmin) (Str ''short'')
       = (Inl (AppError ''New password must be at least 8 characters long'' 400
                 ''INVALID_PASSWORD''), exampleDb)"
    using b c by (simp add: resetPasswordRoute_def validateUUID_def resetPassword_def)
  from a b c d show ?thesis by (intro conjI)
qed

text \<open>
  C6, amended. For every authenticated administrator whose own id, of UUID format, is
  the \<open>:id\<close> parameter, the admin user endpoints reject with a 400 error and leave the
  database as it was: the hard delete with \<open>CANNOT_DELETE_SELF\<close>, the deactivation
  with \<open>CANNOT_DEACTIVATE_SELF\<close>, and the password reset with
  \<open>CANNOT_RESET_OWN_PASSWORD\<close> when the new password is a string of at least 8
  characters, with \<open>INVALID_PASSWORD\<close> when it is not.
\<close>

theorem self_protection:
  "verifyToken jwtVerify db authHeader = Inr u \<Longrightarrow> requireAdmin (Some u) = Inr u
   \<Longrightarrow> isUUID (user_id u) \<Longrightarrow>
     deleteUserRoute db (Some u) (user_id u) =
       (Inl (AppError ''Cannot delete your own account'' 400 ''CANNOT_DELETE_SELF''), db)
   \<and> deactivateUserRoute db (Some u) (user_id u) =
       (Inl (AppError ''Cannot deactivate your own account'' 400 ''CANNOT_DEACTIVATE_SELF''), db)
   \<and> resetPasswordRoute bcryptHash db (Some u) (user_id u) newPassword =
       (if truthy newPassword \<and> isString newPassword \<and> 8 \<le> strLength newPassword
        then Inl (AppError ''Use change-password endpoint to update your own password'' 400
                    ''CANNOT_RESET_OWN_PASSWORD'')
        else Inl (AppError ''New password must be at least 8 characters long'' 400
                    ''INVALID_PASSWORD''), db)"
proof -
  assume auth: "verifyToken jwtVerify db authHeader = Inr u"
    and admin: "requireAdmin (Some u) = Inr u" and uuid: "isUUID (user_id u)"
  note rows = authenticated_rows [OF auth]
  have "deleteUserRoute db (Some u) (user_id u) = deleteUser db u (user_id u)"
    using admin uuid by (simp add: deleteUserRoute_def validateUUID_def)
  moreover have "deactivateUserRoute db (Some u) (user_id u) = deactivateUser db u (user_id u)"
    using admin uuid by (simp add: deactivateUserRoute_def validateUUID_def)
  moreover have "resetPasswordRoute bcryptHash db (Some u) (user_id u) newPassword =
      resetPassword bcryptHash db u (user_id u) newPassword"
    using admin uuid by (simp add: resetPasswordRoute_def validateUUID_def)
  ultimately show ?thesis
    using deleteUser_self [of db u] deactivateUser_self [of db u]
      resetPassword_self [of db u bcryptHash newPassword] rows
    by simp
qed

text \<open>C6, amended, on the example database, with a valid and an invalid new password.\<close>

theorem self_protection_witness:
  "verifyToken exampleJwtVerify exampleDb (Some ''Bearer good'') = Inr exampleAdmin
   \<and> requireAdmin (Some exampleAdmin) = Inr exampleAdmin
   \<and> isUUID (user_id exampleAdmin)
   \<and> deleteUserRoute exampleDb (Some exampleAdmin) adminId =
       (Inl (AppError ''Cannot delete your own account'' 400 ''CANNOT_DELETE_SELF''), exampleDb)
   \<and> deactivateUserRoute exampleDb (Some exampleAdmin) adminId =
       (Inl (AppError ''Cannot deactivate your own account'' 400 ''CANNOT_DEACTIVATE_SELF''),
        exampleDb)
   \<and> resetPasswordRoute (\<lambda>pw. ''$2b$12$new'') exampleDb (Some exampleAdmin) adminId
        (Str ''long-enough-secret'') =
       (Inl (AppError ''Use change-password endpoint to update your own password'' 400
               ''CANNOT_RESET_OWN_PASSWORD''), exampleDb)
   \<and> resetPasswordRoute (\<lambda>pw. ''$2b$12$new'') exampleDb (Some exampleAdmin) adminId Null =
       (Inl (AppError ''New password must be at least 8 characters long'' 400
               ''INVALID_PASSWORD''), exampleDb)"
proof -
  have a: "verifyToken exampleJwtVerify exampleDb (Some ''Bearer good'') = Inr exampleAdmin"
    using verifyTokenTry_bearer [of "''good''" exampleJwtVerify exampleDb]
    by (simp add: verifyToken_def example_tokens example_active_users exampleAdmin_def)
  have b: "requireAdmin (Some exampleAdmin) = Inr exampleAdmin"
    by (simp add: requireAdmin_def exampleAdmin_def)
  have c: "isUUID (user_id exampleAdmin)"
    using example_uuids(1) by (simp add: exampleAdmin_def)
  have i: "user_id exampleAdmin = adminId" by (simp add: exampleAdmin_def)
  from self_protection [OF a b c, of "\<lambda>pw. ''$2b$12$new''" "Str ''long-enough-secret''"]
    self_protection [OF a b c, of "\<lambda>pw. ''$2b$12$new''" Null] a b c
  show ?thesis unfolding i by simp
qed

section \<open>Properties of formatUserResponse and login\<close>

lemma formatUserResponse_keys:
  "map fst (formatUserResponse user) = filter (\<lambda>k. k \<noteq> ''password_hash'') (map fst user)"
  by (induction user) (simp_all add: formatUserResponse_def)

lemma formatUserResponse_lookup:
  "map_of (formatUserResponse user) k = (if k = ''password_hash'' then None else map_of user k)"
proof (induction user)
  case Nil
  show ?case by (simp add: formatUserResponse_def)
next
  case (Cons kv user)
  obtain k' v where kv: "kv = (k', v)" by (cases kv)
  from Cons show ?case
    unfolding kv formatUserResponse_def by (cases "k' = ''password_hash''") auto
qed

lemma login_user_fields:
  assumes "login verifyPassword generateToken now db email password = (Inr resp, db')"
  shows "\<exists>u p. (u, p) \<in> set (selectUserByEmail db email)
           \<and> login_user resp = [(''id'', Str (u_id u)), (''email'', Str (u_email u)),
                                 (''name'', Str (p_name p)), (''role'', Str (p_role p))]"
proof (cases "selectUserByEmail db email")
  case Nil
  with assms show ?thesis by (simp add: login_def)
next
  case (Cons row rows)
  obtain u p where row: "row = (u, p)" by (cases row)
  from assms Cons row
  have "login_user resp = formatUserResponse
          [(''id'', Str (u_id u)), (''email'', Str (u_email u)),
           (''name'', Str (p_name p)), (''role'', Str (p_role p))]"
    by (auto simp: login_def split: if_splits)
  then have "login_user resp = [(''id'', Str (u_id u)), (''email'', Str (u_email u)),
                                 (''name'', Str (p_name p)), (''role'', Str (p_role p))]"
    by (simp add: formatUserResponse_def)
  moreover have "(u, p) \<in> set (selectUserByEmail db email)"
    using Cons row by simp
  ultimately show ?thesis by blast
qed

text \<open>
  C9. \<open>formatUserResponse\<close> returns the fields of its argument without the key
  \<open>password_hash\<close>: the keys are those of the argument, in order, less that key, and
  every other key has the value it had. Hence the \<open>user\<close> object of a successful login
  response has no \<open>password_hash\<close> key, whatever the database holds: it consists of the
  id, email, name and role of the row.
\<close>

theorem formatUserResponse_strips_hash:
  "map fst (formatUserResponse user) = filter (\<lambda>k. k \<noteq> ''password_hash'') (map fst user)
   \<and> map_of (formatUserResponse user) ''password_hash'' = None
   \<and> (\<forall>k. k \<noteq> ''password_hash'' \<longrightarrow> map_of (formatUserResponse user) k = map_of user k)
   \<and> (login verifyPassword generateToken now db email password = (Inr resp, db') \<longrightarrow>
        ''password_hash'' \<notin> fst ` set (login_user resp)
        \<and> map fst (login_user resp) = [''id'', ''email'', ''name'', ''role''])"
proof (intro conjI allI impI)
  show "map fst (formatUserResponse user) = filter (\<lambda>k. k \<noteq> ''password_hash'') (map fst user)"
    by (rule formatUserResponse_keys)
  show "map_of (formatUserResponse user) ''password_hash'' = None"
    by (simp add: formatUserResponse_lookup)
  show "map_of (formatUserResponse user) k = map_of user k" if "k \<noteq> ''password_hash''" for k
    using that by (simp add: formatUserResponse_lookup)
next
  assume ok: "login verifyPassword generateToken now db email password = (Inr resp, db')"
  from login_user_fields [OF ok] obtain u p where
    mem: "(u, p) \<in> set (selectUserByEmail db email)" and
    f: "login_user resp = [(''id'', Str (u_id u)), (''email'', Str (u_email u)),
                           (''name'', Str (p_name p)), (''role'', Str (p_role p))]"
    by (elim exE conjE)
  show "''password_hash'' \<notin> fst ` set (login_user resp)"
    unfolding f by simp
  show "map fst (login_user resp) = [''id'', ''email'', ''name'', ''role'']"
    unfolding f by simp
qed

lemma example_login:
  "fst (login exampleVerifyPassword exampleGenerateToken 7 exampleDb ''ana@example.org'' ''segredo1'')
     = Inr \<lparr> login_user = [(''id'', Str adminId), (''email'', Str ''ana@example.org''),
                            (''name'', Str ''Ana''), (''role'', Str ''administrador'')],
             login_token = exampleGenerateToken adminId ''access'',
             login_refreshToken = exampleGenerateToken adminId ''refresh'' \<rparr>"
  using example_ids_distinct
  by (simp add: login_def selectUserByEmail_def exampleDb_def exampleVerifyPassword_def
        formatUserResponse_def)

text \<open>
  C9 on a database row that carries a hash, and on the login of the example database.
\<close>

theorem formatUserResponse_strips_hash_witness:
  "formatUserResponse [(''id'', Str ''u1''), (''password_hash'', Str ''$2b$12$hashA''),
                       (''name'', Str ''Ana'')]
     = [(''id'', Str ''u1''), (''name'', Str ''Ana'')]
   \<and> fst (login exampleVerifyPassword exampleGenerateToken 7 exampleDb ''ana@example.org''
            ''segredo1'')
       = Inr \<lparr> login_user = [(''id'', Str adminId), (''email'', Str ''ana@example.org''),
                              (''name'', Str ''Ana''), (''role'', Str ''administrador'')],
               login_token = exampleGenerateToken adminId ''access'',
               login_refreshToken = exampleGenerateToken adminId ''refresh'' \<rparr>
   \<and> ''password_hash'' \<notin> fst ` set
         [(''id'', Str adminId), (''email'', Str ''ana@example.org''),
          (''name'', Str ''Ana''), (''role'', Str ''administrador'')]"
proof -
  let ?run = "login exampleVerifyPassword exampleGenerateToken 7 exampleDb ''ana@example.org''
                ''segredo1''"
  let ?resp = "\<lparr> login_user = [(''id'', Str adminId), (''email'', Str ''ana@example.org''),
                              (''name'', Str ''Ana''), (''role'', Str ''administrador'')],
               login_token = exampleGenerateToken adminId ''access'',
               login_refreshToken = exampleGenerateToken adminId ''refresh'' \<rparr>"
  have run: "?run = (Inr ?resp, snd ?run)"
    using example_login by (metis prod.collapse)
  from formatUserResponse_strips_hash
         [of "[(''id'', Str ''u1''), (''password_hash'', Str ''$2b$12$hashA''), (''name'', Str ''Ana'')]"
             exampleVerifyPassword exampleGenerateToken 7 exampleDb "''ana@example.org''"
             "''segredo1''" ?resp "snd ?run"] run
  have "''password_hash'' \<notin> fst ` set (login_user ?resp)" by blast
  moreover have "formatUserResponse [(''id'', Str ''u1''), (''password_hash'', Str ''$2b$12$hashA''),
                       (''name'', Str ''Ana'')] = [(''id'', Str ''u1''), (''name'', Str ''Ana'')]"
    by (simp add: formatUserResponse_def)
  ultimately show ?thesis using example_login by simp
qed

section \<open>Properties of pagination\<close>












section \<open>Properties of the file routes\<close>

lemma split_js_nonempty: "split_js c s \<noteq> []"
  by (induction s) (auto split: list.splits)

lemma split_js_append:
  "split_js c (xs @ c # ys) = split_js c xs @ split_js c ys"
proof (induction xs)
  case Nil
  show ?case by simp
next
  case (Cons x xs)
  obtain w ws where w: "split_js c xs = w # ws"
    using split_js_nonempty [of c xs] by (cases "split_js c xs") auto
  show ?case
  proof (cases "x = c")
    case True
    with Cons show ?thesis by simp
  next
    case False
    with Cons w show ?thesis by simp
  qed
qed

lemma includes_js_char: "includes_js s [c] \<longleftrightarrow> c \<in> set s"
  by (induction s) (auto simp: startsWith_def)

lemma includes_js_self: "s \<noteq> [] \<Longrightarrow> includes_js s s"
  by (cases s) (simp_all add: startsWith_def)

lemma valid_filename:
  assumes "\<not> invalidFilename filename"
  shows "filename \<noteq> []" "CHR ''/'' \<notin> set filename" "CHR 0x5C \<notin> set filename"
    "filename \<noteq> ''..''" "\<not> includes_js filename ''..''"
proof -
  from assms show ne: "filename \<noteq> []" and dd: "\<not> includes_js filename ''..''"
    by (simp_all add: invalidFilename_def)
  from assms have "\<not> includes_js filename [CHR ''/'']" "\<not> includes_js filename [CHR 0x5C]"
    by (simp_all add: invalidFilename_def)
  then show "CHR ''/'' \<notin> set filename" "CHR 0x5C \<notin> set filename"
    by (simp_all add: includes_js_char)
  from dd includes_js_self [of "''..''"] show "filename \<noteq> ''..''" by auto
qed

lemma segments_of_joined:
  assumes d: "dir \<noteq> []" and v: "\<not> invalidFilename filename"
  shows "normalizeSegments (dir @ ''/'' @ filename) =
           normalizeSegments dir @ (if filename = ''.'' then [] else [filename])"
proof -
  note f = valid_filename [OF v]
  have abs: "isAbsolute (dir @ ''/'' @ filename) = isAbsolute dir"
    using d by (cases dir) (simp_all add: isAbsolute_def)
  have "split_js CHR ''/'' (dir @ ''/'' @ filename) =
          split_js CHR ''/'' dir @ split_js CHR ''/'' filename"
    using split_js_append [of "CHR ''/''" dir filename] by simp
  also have "split_js CHR ''/'' filename = [filename]"
    by (rule split_js_none [OF f(2)])
  finally have sp: "split_js CHR ''/'' (dir @ ''/'' @ filename) = split_js CHR ''/'' dir @ [filename]" .
  show ?thesis
    unfolding normalizeSegments_def abs sp
    using f(1) f(4) by (simp add: normStep_def)
qed

lemma pathJoin_two:
  "dir \<noteq> [] \<Longrightarrow> filename \<noteq> [] \<Longrightarrow> pathJoin [dir, filename] = normalize (dir @ ''/'' @ filename)"
  by (simp add: pathJoin_def)

lemma uploadDir_nonempty: "uploadDir env \<noteq> []"
  by (cases env) (simp_all add: uploadDir_def)

lemma deleteFile_ops:
  "op \<in> set (snd (snd (deleteFile env fs filename)))
     \<Longrightarrow> opPath op = pathJoin [uploadDir env, filename] \<and> \<not> invalidFilename filename"
  by (auto simp: deleteFile_def Let_def split: if_splits sum.splits)

lemma getFileInfo_ops:
  "op \<in> set (snd (getFileInfo env fs filename))
     \<Longrightarrow> opPath op = pathJoin [uploadDir env, filename] \<and> \<not> invalidFilename filename"
  by (auto simp: getFileInfo_def Let_def split: if_splits sum.splits)

lemma viewFile_ops:
  "op \<in> set (snd (viewFile env fs filename))
     \<Longrightarrow> opPath op = pathJoin [uploadDir env, filename] \<and> \<not> invalidFilename filename"
  by (auto simp: viewFile_def Let_def split: if_splits sum.splits)

lemma route_ops:
  "set (snd (snd (deleteFileRoute env fs user filename))) \<subseteq> set (snd (snd (deleteFile env fs filename)))"
  "set (snd (getFileInfoRoute env fs user filename)) \<subseteq> set (snd (getFileInfo env fs filename))"
  by (simp_all add: deleteFileRoute_def getFileInfoRoute_def split: sum.splits)

text \<open>
  C10. In the file delete, file info and file view endpoints, a filename that is empty
  or contains \<open>..\<close>, a slash or a backslash is rejected with the 400 error
  \<open>INVALID_FILENAME\<close> and no operation on the file system is made (for delete and
  info, once the role gate has let the request pass). Every operation that any of these
  endpoints makes on the file system is on the path \<open>path.join(uploadDir, filename)\<close>,
  where the filename is one path segment: it has no slash and no backslash and is not
  \<open>..\<close>, so the segments of the normalised path are those of the upload directory
  followed by the filename (or by nothing, for the filename \<open>.\<close>): the path does not
  leave the upload directory.
\<close>

theorem filename_confinement:
  "(invalidFilename filename \<longrightarrow>
      viewFile env fs filename =
        (Inl (Rejected (AppError ''Invalid filename'' 400 ''INVALID_FILENAME'')), [])
      \<and> (requireAdminOrManager user = Inr u \<longrightarrow>
            deleteFileRoute env fs user filename =
              (Inl (Rejected (AppError ''Invalid filename'' 400 ''INVALID_FILENAME'')), fs, [])
          \<and> getFileInfoRoute env fs user filename =
              (Inl (Rejected (AppError ''Invalid filename'' 400 ''INVALID_FILENAME'')), [])))
   \<and> (\<forall>op. op \<in> set (snd (snd (deleteFileRoute env fs user filename)))
                  \<union> set (snd (getFileInfoRoute env fs user filename))
                  \<union> set (snd (viewFile env fs filename)) \<longrightarrow>
          opPath op = pathJoin [uploadDir env, filename]
        \<and> pathJoin [uploadDir env, filename] = normalize (uploadDir env @ ''/'' @ filename)
        \<and> filename \<noteq> [] \<and> filename \<noteq> ''..''
        \<and> CHR ''/'' \<notin> set filename \<and> CHR 0x5C \<notin> set filename
        \<and> normalizeSegments (uploadDir env @ ''/'' @ filename) =
            normalizeSegments (uploadDir env) @ (if filename = ''.'' then [] else [filename]))"
proof (intro conjI impI allI)
  assume "invalidFilename filename"
  then show "viewFile env fs filename =
      (Inl (Rejected (AppError ''Invalid filename'' 400 ''INVALID_FILENAME'')), [])"
    by (simp add: viewFile_def)
next
  assume "invalidFilename filename" and "requireAdminOrManager user = Inr u"
  then show "deleteFileRoute env fs user filename =
      (Inl (Rejected (AppError ''Invalid filename'' 400 ''INVALID_FILENAME'')), fs, [])"
    by (simp add: deleteFileRoute_def deleteFile_def)
next
  assume "invalidFilename filename" and "requireAdminOrManager user = Inr u"
  then show "getFileInfoRoute env fs user filename =
      (Inl (Rejected (AppError ''Invalid filename'' 400 ''INVALID_FILENAME'')), [])"
    by (simp add: getFileInfoRoute_def getFileInfo_def)
next
  fix op
  assume "op \<in> set (snd (snd (deleteFileRoute env fs user filename)))
                  \<union> set (snd (getFileInfoRoute env fs user filename))
                  \<union> set (snd (viewFile env fs filename))"
  then have "op \<in> set (snd (snd (deleteFile env fs filename)))
           \<or> op \<in> set (snd (getFileInfo env fs filename))
           \<or> op \<in> set (snd (viewFile env fs filename))"
    using route_ops [of env fs user filename] by blast
  then have p: "opPath op = pathJoin [uploadDir env, filename]" and v: "\<not> invalidFilename filename"
    using deleteFile_ops [of op env fs filename] getFileInfo_ops [of op env fs filename]
      viewFile_ops [of op env fs filename]
    by blast+
  note f = valid_filename [OF v]
  from p show "opPath op = pathJoin [uploadDir env, filename]" .
  show "pathJoin [uploadDir env, filename] = normalize (uploadDir env @ ''/'' @ filename)"
    by (rule pathJoin_two [OF uploadDir_nonempty f(1)])
  from f show "filename \<noteq> []" "filename \<noteq> ''..''" "CHR ''/'' \<notin> set filename"
    "CHR 0x5C \<notin> set filename" by simp_all
  show "normalizeSegments (uploadDir env @ ''/'' @ filename) =
            normalizeSegments (uploadDir env) @ (if filename = ''.'' then [] else [filename])"
    by (rule segments_of_joined [OF uploadDir_nonempty v])
qed

lemma example_filenames:
  "invalidFilename ''../etc/passwd''" "invalidFilename ''a/b''" "invalidFilename []"
  "invalidFilename [CHR ''a'', CHR 0x5C, CHR ''b'']" "\<not> invalidFilename ''r1.pdf''"
  by (simp_all add: invalidFilename_def startsWith_def)

lemma example_path: "pathJoin [uploadDir None, ''r1.pdf''] = ''uploads/r1.pdf''"
  by (simp add: pathJoin_def uploadDir_def normalize_def normalizeSegments_def normStep_def
        isAbsolute_def)

lemma example_delete:
  "deleteFileRoute None exampleFs (Some exampleAdmin) ''r1.pdf'' =
     (Inr ''File deleted successfully'', exampleFs \<lparr> fs_files := [] \<rparr>,
      [Access ''uploads/r1.pdf'', Unlink ''uploads/r1.pdf''])"
  using example_gate example_filenames(5) example_path
  by (simp add: deleteFileRoute_def deleteFile_def fsAccess_def fsUnlink_def exampleFs_def Let_def)

text \<open>
  C10 on the example file system: path traversal attempts are rejected untouched, and
  the deletion of \<open>r1.pdf\<close> works on \<open>uploads/r1.pdf\<close>.
\<close>

theorem filename_confinement_witness:
  "invalidFilename ''../etc/passwd''
   \<and> requireAdminOrManager (Some exampleAdmin) = Inr exampleAdmin
   \<and> viewFile None exampleFs ''../etc/passwd'' =
       (Inl (Rejected (AppError ''Invalid filename'' 400 ''INVALID_FILENAME'')), [])
   \<and> deleteFileRoute None exampleFs (Some exampleAdmin) ''../etc/passwd'' =
       (Inl (Rejected (AppError ''Invalid filename'' 400 ''INVALID_FILENAME'')), exampleFs, [])
   \<and> getFileInfoRoute None exampleFs (Some exampleAdmin) ''../etc/passwd'' =
       (Inl (Rejected (AppError ''Invalid filename'' 400 ''INVALID_FILENAME'')), [])
   \<and> Unlink ''uploads/r1.pdf''
       \<in> set (snd (snd (deleteFileRoute None exampleFs (Some exampleAdmin) ''r1.pdf'')))
   \<and> pathJoin [uploadDir None, ''r1.pdf''] = ''uploads/r1.pdf''
   \<and> normalizeSegments (uploadDir None @ ''/'' @ ''r1.pdf'') = [''uploads'', ''r1.pdf'']"
proof -
  have m: "Unlink ''uploads/r1.pdf''
       \<in> set (snd (snd (deleteFileRoute None exampleFs (Some exampleAdmin) ''r1.pdf'')))"
    unfolding example_delete by simp
  have seg: "normalizeSegments (uploadDir None) = [''uploads'']"
    by (simp add: uploadDir_def normalizeSegments_def normStep_def isAbsolute_def)
  from filename_confinement
         [of "''../etc/passwd''" None exampleFs "Some exampleAdmin" exampleAdmin]
    example_filenames(1) example_gate
  have rej: "viewFile None exampleFs ''../etc/passwd'' =
       (Inl (Rejected (AppError ''Invalid filename'' 400 ''INVALID_FILENAME'')), [])"
    "deleteFileRoute None exampleFs (Some exampleAdmin) ''../etc/passwd'' =
       (Inl (Rejected (AppError ''Invalid filename'' 400 ''INVALID_FILENAME'')), exampleFs, [])"
    "getFileInfoRoute None exampleFs (Some exampleAdmin) ''../etc/passwd'' =
       (Inl (Rejected (AppError ''Invalid filename'' 400 ''INVALID_FILENAME'')), [])"
    by blast+
  from filename_confinement [of "''r1.pdf''" None exampleFs "Some exampleAdmin" exampleAdmin] m
  have "normalizeSegments (uploadDir None @ ''/'' @ ''r1.pdf'') =
          normalizeSegments (uploadDir None) @ (if ''r1.pdf'' = ''.'' then [] else [''r1.pdf''])"
    by blast
  then have s: "normalizeSegments (uploadDir None @ ''/'' @ ''r1.pdf'') = [''uploads'', ''r1.pdf'']"
    unfolding seg by simp
  from example_filenames(1) example_gate rej m example_path s show ?thesis by (intro conjI)
qed

section \<open>Properties of the transaction routes\<close>


lemma bestEffort_db: "w_db (unlinkReceiptBestEffort line dirname w s) = w_db w"
  by (simp add: unlinkReceiptBestEffort_def split: sum.splits)


















end
